theory Spec2Isabelle
  imports Complex_Main "HOL-Library.AList" "HOL-Library.Sublist"
begin

section \<open>Python values, exceptions and effects\<close>

text \<open>
  The scraper exists in two versions: \<^verbatim>\<open>main.py\<close> (the first script, no retry and almost no
  exception handling) and \<^verbatim>\<open>main2.py\<close> ("Improved Stock Scraper with Error Handling & Rate
  Limiting"). Both are embedded here; definitions taken from \<^verbatim>\<open>main.py\<close> carry the prefix
  \<open>v1_\<close>, all others are from \<^verbatim>\<open>main2.py\<close>.

  A Python \<^verbatim>\<open>str\<close> is a \<^typ>\<open>string\<close>. ASCII text is modelled exactly; Thai text is
  carried as its UTF-8 bytes, which keeps substring tests exact, and \<^verbatim>\<open>len\<close> counts code
  points. Case mapping, digits and white space are the ASCII ones.
\<close>

datatype exn_class =
    ConnectionError | Timeout | HTTPError nat | InvalidURL | RequestException
  | WebDriverException
  | ValueError | IndexError | AttributeError | TypeError | JSONDecodeError | OSError
  | OtherException

text \<open>An exception object: its class and \<^verbatim>\<open>str(e)\<close>.\<close>

datatype exn = Exn exn_class string

fun str_exn :: "exn \<Rightarrow> string" where
  "str_exn (Exn c m) = m"

text \<open>\<^verbatim>\<open>except requests.exceptions.RequestException\<close>: the class and its subclasses.\<close>

fun is_RequestException :: "exn \<Rightarrow> bool" where
  "is_RequestException (Exn ConnectionError m) = True"
| "is_RequestException (Exn Timeout m) = True"
| "is_RequestException (Exn (HTTPError n) m) = True"
| "is_RequestException (Exn InvalidURL m) = True"
| "is_RequestException (Exn RequestException m) = True"
| "is_RequestException (Exn c m) = False"

fun is_WebDriverException :: "exn \<Rightarrow> bool" where
  "is_WebDriverException (Exn WebDriverException m) = True"
| "is_WebDriverException (Exn c m) = False"

text \<open>\<^verbatim>\<open>except (ValueError, IndexError)\<close>; \<^verbatim>\<open>json.JSONDecodeError\<close> is a subclass of
  \<^verbatim>\<open>ValueError\<close>.\<close>

fun is_ValueError_or_IndexError :: "exn \<Rightarrow> bool" where
  "is_ValueError_or_IndexError (Exn ValueError m) = True"
| "is_ValueError_or_IndexError (Exn JSONDecodeError m) = True"
| "is_ValueError_or_IndexError (Exn IndexError m) = True"
| "is_ValueError_or_IndexError (Exn c m) = False"

fun is_JSONDecodeError :: "exn \<Rightarrow> bool" where
  "is_JSONDecodeError (Exn JSONDecodeError m) = True"
| "is_JSONDecodeError (Exn c m) = False"

text \<open>\<^verbatim>\<open>except Exception\<close> and the bare \<^verbatim>\<open>except:\<close>.\<close>

definition is_Exception :: "exn \<Rightarrow> bool" where
  "is_Exception e = True"

text \<open>
  A Python \<^verbatim>\<open>float\<close> is modelled by the exact decimal value its literal denotes; rounding to
  the nearest double and overflow to infinity are not modelled.
\<close>

datatype pyfloat = Finite rat | PosInf | NegInf | NaN

datatype pyval =
    VNone | VBool bool | VInt int | VFloat pyfloat | VStr string
  | VList "pyval list" | VDict "(string \<times> pyval) list"

text \<open>\<^verbatim>\<open>key in d\<close> and \<^verbatim>\<open>d[key]\<close> for a dict \<open>d\<close>.\<close>

fun has_key :: "string \<Rightarrow> pyval \<Rightarrow> bool" where
  "has_key k (VDict kvs) = (k \<in> fst ` set kvs)"
| "has_key k v = False"

fun item :: "string \<Rightarrow> pyval \<Rightarrow> pyval option" where
  "item k (VDict kvs) = map_of kvs k"
| "item k v = None"

fun keys :: "pyval \<Rightarrow> string list" where
  "keys (VDict kvs) = map fst kvs"
| "keys v = []"

text \<open>
  What a call does to the outside world is recorded as a list of events, in order:
  every \<^verbatim>\<open>time.sleep\<close>, every \<^verbatim>\<open>requests.get\<close>, every start of a browser and the browser
  it gave, every operation on a browser, every file operation, and the start of the
  collection for a symbol (line 367 of main2.py).
\<close>

datatype event =
    Sleep int | HttpGet string
  | ChromeStart | DriverCreated nat | DriverGet nat string | DriverRefresh nat | DriverQuit nat
  | Collecting string | MakeDirs string | FileOpen string | FileWrite string

text \<open>
  A computation takes the state of the outside world and returns a value or a raised
  exception, the events it caused and the new state of the world.
\<close>

type_synonym ('a, 'w) io = "'w \<Rightarrow> (exn + 'a) \<times> event list \<times> 'w"

definition io_return :: "'a \<Rightarrow> ('a, 'w) io" where
  "io_return a w = (Inr a, [], w)"

definition io_raise :: "exn \<Rightarrow> ('a, 'w) io" where
  "io_raise e w = (Inl e, [], w)"

definition io_bind :: "('a, 'w) io \<Rightarrow> ('a \<Rightarrow> ('b, 'w) io) \<Rightarrow> ('b, 'w) io" where
  "io_bind m f w =
     (case m w of
        (Inl e, evs, w1) \<Rightarrow> (Inl e, evs, w1)
      | (Inr a, evs, w1) \<Rightarrow> (case f a w1 of (r, evs2, w2) \<Rightarrow> (r, evs @ evs2, w2)))"

text \<open>\<^verbatim>\<open>try: m  except <catches> as e: h e\<close>\<close>

definition io_try :: "('a, 'w) io \<Rightarrow> (exn \<Rightarrow> bool) \<Rightarrow> (exn \<Rightarrow> ('a, 'w) io) \<Rightarrow> ('a, 'w) io" where
  "io_try m catches h w =
     (case m w of
        (Inl e, evs, w1) \<Rightarrow>
          if catches e then (case h e w1 of (r, evs2, w2) \<Rightarrow> (r, evs @ evs2, w2))
          else (Inl e, evs, w1)
      | (Inr a, evs, w1) \<Rightarrow> (Inr a, evs, w1))"

text \<open>A pure library call that may raise.\<close>

definition io_pure :: "exn + 'a \<Rightarrow> ('a, 'w) io" where
  "io_pure r w = (r, [], w)"

text \<open>A call into the outside world, recorded with the events \<open>evs\<close>.\<close>

definition io_call :: "event list \<Rightarrow> ('w \<Rightarrow> (exn + 'a) \<times> 'w) \<Rightarrow> ('a, 'w) io" where
  "io_call evs f w = (case f w of (r, w1) \<Rightarrow> (r, evs, w1))"

definition result :: "(exn + 'a) \<times> event list \<times> 'w \<Rightarrow> exn + 'a" where
  "result x = fst x"

definition events :: "(exn + 'a) \<times> event list \<times> 'w \<Rightarrow> event list" where
  "events x = fst (snd x)"

definition world :: "(exn + 'a) \<times> event list \<times> 'w \<Rightarrow> 'w" where
  "world x = snd (snd x)"

text \<open>A computation that returns a value from every state of the world.\<close>

definition never_raises :: "('a, 'w) io \<Rightarrow> bool" where
  "never_raises m = (\<forall>w. \<exists>a evs w1. m w = (Inr a, evs, w1))"

text \<open>\<^verbatim>\<open>time.sleep(d)\<close> raises \<^verbatim>\<open>ValueError\<close> on a negative length.\<close>

definition time_sleep :: "int \<Rightarrow> (unit, 'w) io" where
  "time_sleep d =
     (if d < 0 then io_raise (Exn ValueError ''sleep length must be non-negative'')
      else io_call [Sleep d] (\<lambda>w. (Inr (), w)))"

section \<open>Strings and regular expressions\<close>

definition is_digit :: "char \<Rightarrow> bool" where
  "is_digit c = (c \<in> set ''0123456789'')"

text \<open>\<^verbatim>\<open>s.lower()\<close> and \<^verbatim>\<open>s.upper()\<close>.\<close>

definition lower_char :: "char \<Rightarrow> char" where
  "lower_char c =
     (case map_of (zip ''ABCDEFGHIJKLMNOPQRSTUVWXYZ'' ''abcdefghijklmnopqrstuvwxyz'') c of
        Some l \<Rightarrow> l | None \<Rightarrow> c)"

definition upper_char :: "char \<Rightarrow> char" where
  "upper_char c =
     (case map_of (zip ''abcdefghijklmnopqrstuvwxyz'' ''ABCDEFGHIJKLMNOPQRSTUVWXYZ'') c of
        Some u \<Rightarrow> u | None \<Rightarrow> c)"

definition lower :: "string \<Rightarrow> string" where
  "lower s = map lower_char s"

definition upper :: "string \<Rightarrow> string" where
  "upper s = map upper_char s"

text \<open>\<^verbatim>\<open>s.startswith(p)\<close>, \<^verbatim>\<open>s.endswith(p)\<close> and \<^verbatim>\<open>sub in s\<close>.\<close>

fun startswith :: "string \<Rightarrow> string \<Rightarrow> bool" where
  "startswith s [] = True"
| "startswith [] (p # ps) = False"
| "startswith (c # cs) (p # ps) = (c = p \<and> startswith cs ps)"

definition endswith :: "string \<Rightarrow> string \<Rightarrow> bool" where
  "endswith s p = startswith (rev s) (rev p)"

fun contains :: "string \<Rightarrow> string \<Rightarrow> bool" where
  "contains [] sub = (sub = [])"
| "contains (c # cs) sub = (startswith (c # cs) sub \<or> contains cs sub)"

text \<open>\<^verbatim>\<open>s.split(sep)\<close> for a separator of one character: never empty.\<close>

fun str_split :: "char \<Rightarrow> string \<Rightarrow> string list" where
  "str_split sep [] = [[]]"
| "str_split sep (c # cs) =
     (if c = sep then [] # str_split sep cs
      else (case str_split sep cs of
              [] \<Rightarrow> [[c]]
            | p # ps \<Rightarrow> (c # p) # ps))"

text \<open>\<^verbatim>\<open>s.replace(c, "")\<close> for one character \<open>c\<close>.\<close>

definition remove_char :: "char \<Rightarrow> string \<Rightarrow> string" where
  "remove_char c s = filter (\<lambda>x. x \<noteq> c) s"

text \<open>
  \<^verbatim>\<open>re.search(r"\.(pdf|xls|xlsx)$", href, re.IGNORECASE)\<close>: \<^verbatim>\<open>$\<close> matches at the end of
  the string and before a newline that ends the string.
\<close>

definition has_statement_suffix :: "string \<Rightarrow> bool" where
  "has_statement_suffix s =
     (endswith s ''.pdf'' \<or> endswith s ''.xls'' \<or> endswith s ''.xlsx'')"

definition is_statement_href :: "string \<Rightarrow> bool" where
  "is_statement_href href =
     (let h = lower href in
      has_statement_suffix h \<or>
      (h \<noteq> [] \<and> last h = CHR 0x0A \<and> has_statement_suffix (butlast h)))"

text \<open>\<^verbatim>\<open>re.search(r"(20\d{2})", file_name)\<close>: the leftmost match, if any.\<close>

fun search_year :: "string \<Rightarrow> string option" where
  "search_year (a # b # c # d # rest) =
     (if a = CHR ''2'' \<and> b = CHR ''0'' \<and> is_digit c \<and> is_digit d then Some [a, b, c, d]
      else search_year (b # c # d # rest))"
| "search_year s = None"

text \<open>
  \<^verbatim>\<open>re.search(r"q[1-4]|y(?:early)?", file_name)\<close>: at the leftmost position where one of
  the alternatives matches, the first alternative that does; \<^verbatim>\<open>(?:early)?\<close> is greedy.
\<close>

definition match_period :: "string \<Rightarrow> string option" where
  "match_period s =
     (if startswith s ''q1'' \<or> startswith s ''q2'' \<or> startswith s ''q3'' \<or> startswith s ''q4''
      then Some (take 2 s)
      else if startswith s ''yearly'' then Some ''yearly''
      else if startswith s ''y'' then Some ''y''
      else None)"

fun search_period :: "string \<Rightarrow> string option" where
  "search_period [] = None"
| "search_period (c # cs) =
     (case match_period (c # cs) of
        Some m \<Rightarrow> Some m
      | None \<Rightarrow> search_period cs)"

section \<open>Numbers from text: \<^verbatim>\<open>float()\<close> and \<^verbatim>\<open>int()\<close>\<close>

text \<open>
  The pure computations that may raise return \<open>exn + 'a\<close>; \<open>ebind\<close> sequences them as
  Python evaluates one expression after another.
\<close>

definition ebind :: "exn + 'a \<Rightarrow> ('a \<Rightarrow> exn + 'b) \<Rightarrow> exn + 'b" where
  "ebind m f = (case m of Inl e \<Rightarrow> Inl e | Inr a \<Rightarrow> f a)"

text \<open>The white space that \<^verbatim>\<open>float()\<close> and \<^verbatim>\<open>int()\<close> skip at both ends: tab, newline,
  vertical tab, form feed, carriage return and space.\<close>

definition is_space :: "char \<Rightarrow> bool" where
  "is_space c = (c \<in> set [CHR 0x09, CHR 0x0A, CHR 0x0B, CHR 0x0C, CHR 0x0D, CHR 0x20])"

text \<open>The white space of \<^verbatim>\<open>str.strip()\<close> has the four separators 0x1C to 0x1F as well.\<close>

definition is_str_space :: "char \<Rightarrow> bool" where
  "is_str_space c = (is_space c \<or> c \<in> set [CHR 0x1C, CHR 0x1D, CHR 0x1E, CHR 0x1F])"

definition strip_with :: "(char \<Rightarrow> bool) \<Rightarrow> string \<Rightarrow> string" where
  "strip_with sp s = rev (dropWhile sp (rev (dropWhile sp s)))"

text \<open>\<^verbatim>\<open>s.strip()\<close>\<close>

definition strip :: "string \<Rightarrow> string" where
  "strip s = strip_with is_str_space s"

text \<open>An underscore in a numeric literal must stand between two digits; \<open>prev\<close> is the
  character before.\<close>

fun underscores_ok :: "char \<Rightarrow> string \<Rightarrow> bool" where
  "underscores_ok prev [] = (prev \<noteq> CHR ''_'')"
| "underscores_ok prev (c # cs) =
     ((if c = CHR ''_'' then is_digit prev
       else if prev = CHR ''_'' then is_digit c else True)
      \<and> underscores_ok c cs)"

definition digits_value :: "string \<Rightarrow> nat" where
  "digits_value ds = foldl (\<lambda>n c. 10 * n + (of_char c - 48)) 0 ds"

text \<open>An optional sign: whether it is a minus, and the rest.\<close>

definition split_sign :: "string \<Rightarrow> bool \<times> string" where
  "split_sign s =
     (case s of
        [] \<Rightarrow> (False, [])
      | c # r \<Rightarrow> if c = CHR ''-'' then (True, r) else if c = CHR ''+'' then (False, r)
                 else (False, s))"

text \<open>What follows the mantissa: nothing, or \<^verbatim>\<open>e\<close>, an optional sign and digits.\<close>

definition parse_exponent :: "string \<Rightarrow> int option" where
  "parse_exponent s =
     (case s of
        [] \<Rightarrow> Some 0
      | c # r \<Rightarrow>
          if c = CHR ''e'' \<or> c = CHR ''E'' then
            (case split_sign r of
               (neg, ds) \<Rightarrow>
                 if ds \<noteq> [] \<and> list_all is_digit ds
                 then Some (if neg then - int (digits_value ds) else int (digits_value ds))
                 else None)
          else None)"

definition scale10 :: "rat \<Rightarrow> int \<Rightarrow> rat" where
  "scale10 m e = (if 0 \<le> e then m * 10 ^ nat e else m / 10 ^ nat (- e))"

text \<open>Digits, an optional point and more digits (at least one digit in all), an optional
  exponent, and nothing after.\<close>

definition parse_decimal :: "string \<Rightarrow> rat option" where
  "parse_decimal s =
     (let ip = takeWhile is_digit s;
          r1 = dropWhile is_digit s;
          fp = (case r1 of [] \<Rightarrow> [] | c # r \<Rightarrow> if c = CHR ''.'' then takeWhile is_digit r else []);
          r2 = (case r1 of [] \<Rightarrow> [] | c # r \<Rightarrow> if c = CHR ''.'' then dropWhile is_digit r else r1)
      in if ip @ fp = [] then None
         else (case parse_exponent r2 of
                 None \<Rightarrow> None
               | Some e \<Rightarrow> Some (scale10 (of_nat (digits_value (ip @ fp))) (e - int (length fp)))))"

text \<open>The messages of the two \<^verbatim>\<open>ValueError\<close>s quote the argument; the quoting of
  \<^verbatim>\<open>repr\<close> is not modelled.\<close>

definition float_error :: "string \<Rightarrow> exn" where
  "float_error x = Exn ValueError (''could not convert string to float: '' @ x)"

definition int_error :: "string \<Rightarrow> exn" where
  "int_error x = Exn ValueError (''invalid literal for int() with base 10: '' @ x)"

text \<open>\<^verbatim>\<open>float(x)\<close> for a string \<open>x\<close>.\<close>

definition py_float :: "string \<Rightarrow> exn + pyfloat" where
  "py_float x =
     (let s = strip_with is_space x in
      if \<not> underscores_ok (CHR 0x00) s then Inl (float_error x)
      else (case split_sign (remove_char CHR ''_'' s) of
              (neg, r) \<Rightarrow>
                if lower r = ''inf'' \<or> lower r = ''infinity''
                then Inr (if neg then NegInf else PosInf)
                else if lower r = ''nan'' then Inr NaN
                else (case parse_decimal r of
                        None \<Rightarrow> Inl (float_error x)
                      | Some v \<Rightarrow> Inr (Finite (if neg then - v else v)))))"

text \<open>\<^verbatim>\<open>int(x)\<close> for a string \<open>x\<close>.\<close>

definition py_int :: "string \<Rightarrow> exn + int" where
  "py_int x =
     (case split_sign (strip_with is_space x) of
        (neg, r) \<Rightarrow>
          if r \<noteq> [] \<and> underscores_ok (CHR 0x00) r \<and> list_all is_digit (remove_char CHR ''_'' r)
          then Inr (if neg then - int (digits_value (remove_char CHR ''_'' r))
                    else int (digits_value (remove_char CHR ''_'' r)))
          else Inl (int_error x))"

text \<open>\<^verbatim>\<open>f * 1e6\<close>\<close>

fun times_1e6 :: "pyfloat \<Rightarrow> pyfloat" where
  "times_1e6 (Finite r) = Finite (r * 1000000)"
| "times_1e6 f = f"

section \<open>The outside world\<close>

record response =
  status_code :: nat
  resp_text :: string

type_synonym params = "(string \<times> string) list"

text \<open>One \<^verbatim>\<open><table>\<close>: its text and, for each \<^verbatim>\<open><tr>\<close>, the texts of its \<^verbatim>\<open><td>\<close> cells
  (\<^verbatim>\<open>get_text(strip=True)\<close>).\<close>

record table =
  table_text :: string
  table_rows :: "string list list"

text \<open>One \<^verbatim>\<open><div>\<close> of the rendered page: its text and the text of
  \<^verbatim>\<open>div.find_next("div")\<close>, if there is one.\<close>

record div_tag =
  div_text :: string
  next_div_text :: "string option"

text \<open>
  What the selector chains of \<^verbatim>\<open>fetch_factsheet_selenium\<close> find in a parsed page: the text
  of the company-name tag (the last selector is a regular expression built from the symbol),
  the text of the price tag, every \<^verbatim>\<open>div\<close>, and the texts of the \<^verbatim>\<open>td\<close>/\<^verbatim>\<open>th\<close> cells of every
  row of the selected tables. A lookup may raise.
\<close>

record soup =
  company_name_tag :: "string \<Rightarrow> exn + string option"
  price_tag :: "exn + string option"
  all_divs :: "exn + div_tag list"
  info_rows :: "exn + string list list"

text \<open>
  What the selectors of \<^verbatim>\<open>fetch_factsheet\<close> of main.py find: the text of \<^verbatim>\<open>.header-1\<close>, of the
  price tag, of the \<^verbatim>\<open>td\<close> next to the market-capitalisation \<^verbatim>\<open>th\<close> (outer \<open>None\<close>: no such
  \<^verbatim>\<open>th\<close>; inner \<open>None\<close>: no sibling \<^verbatim>\<open>td\<close>), the \<^verbatim>\<open>td\<close> texts of the rows of the first
  \<^verbatim>\<open>table.table-info\<close> (\<open>None\<close>: no such table), those of all such tables, and the \<^verbatim>\<open>td\<close>
  next to the average-volume \<^verbatim>\<open>th\<close>.
\<close>

record v1_soup =
  v1_header :: "string option"
  v1_price_tag :: "string option"
  v1_market_cap_td :: "string option option"
  v1_ratio_rows :: "string list list option"
  v1_info_rows :: "string list list"
  v1_avg_volume_td :: "string option option"

text \<open>What \<^verbatim>\<open>fetch_factsheet_selenium\<close> of main.py looks up: the text of the \<^verbatim>\<open>h1\<close>, of the
  price \<^verbatim>\<open>span\<close>, and every \<^verbatim>\<open>div\<close>.\<close>

record v1_rendered =
  v1_name_tag :: "string option"
  v1_last_price_tag :: "string option"
  v1_divs :: "div_tag list"

text \<open>
  The libraries and the world behind them. \<open>requests_get\<close>, the browser operations and
  the file operations act on the world; parsing (\<^verbatim>\<open>BeautifulSoup\<close>, \<^verbatim>\<open>response.json()\<close>,
  \<^verbatim>\<open>json.dumps\<close>, \<^verbatim>\<open>strftime\<close>) is a function of its argument. A browser is a number, a
  date is a number of days. \<open>logger_level\<close> is \<^verbatim>\<open>logger.level\<close> of the module's logger: 0
  (\<^verbatim>\<open>NOTSET\<close>) as the module is written, since \<^verbatim>\<open>basicConfig\<close> sets the level of the root
  logger only.
\<close>

record 'w env =
  requests_get :: "string \<Rightarrow> params \<Rightarrow> 'w \<Rightarrow> (exn + response) \<times> 'w"
  json_loads :: "string \<Rightarrow> exn + pyval"
  bs_tables :: "string \<Rightarrow> exn + table list"
  bs_hrefs :: "string \<Rightarrow> exn + string list"
  bs_soup :: "string \<Rightarrow> exn + soup"
  bs_v1_soup :: "string \<Rightarrow> exn + v1_soup"
  bs_v1_rendered :: "string \<Rightarrow> exn + v1_rendered"
  webdriver_Chrome :: "'w \<Rightarrow> (exn + nat) \<times> 'w"
  driver_get :: "nat \<Rightarrow> string \<Rightarrow> 'w \<Rightarrow> (exn + unit) \<times> 'w"
  driver_page_source :: "nat \<Rightarrow> 'w \<Rightarrow> (exn + string) \<times> 'w"
  driver_refresh :: "nat \<Rightarrow> 'w \<Rightarrow> (exn + unit) \<times> 'w"
  driver_quit :: "nat \<Rightarrow> 'w \<Rightarrow> (exn + unit) \<times> 'w"
  datetime_now :: "'w \<Rightarrow> string \<times> 'w"
  datetime_today :: "'w \<Rightarrow> int \<times> 'w"
  strftime :: "int \<Rightarrow> string"
  os_makedirs :: "string \<Rightarrow> 'w \<Rightarrow> (exn + unit) \<times> 'w"
  file_open :: "string \<Rightarrow> 'w \<Rightarrow> (exn + unit) \<times> 'w"
  file_write :: "string \<Rightarrow> string \<Rightarrow> 'w \<Rightarrow> (exn + unit) \<times> 'w"
  json_dumps :: "pyval \<Rightarrow> exn + string"
  logger_level :: nat

section \<open>Transport: \<^verbatim>\<open>safe_request\<close>\<close>

text \<open>\<^verbatim>\<open>response.raise_for_status()\<close>: an \<^verbatim>\<open>HTTPError\<close> for a 4xx or 5xx status.\<close>

definition raise_for_status :: "response \<Rightarrow> (unit, 'w) io" where
  "raise_for_status r =
     (if 400 \<le> status_code r \<and> status_code r < 600
      then io_raise (Exn (HTTPError (status_code r)) ''HTTPError'')
      else io_return ())"

text \<open>The body of the \<^verbatim>\<open>try\<close> in \<^verbatim>\<open>safe_request\<close>: one attempt.\<close>

definition http_attempt :: "'w env \<Rightarrow> string \<Rightarrow> params \<Rightarrow> (response, 'w) io" where
  "http_attempt env url ps =
     io_bind (io_call [HttpGet url] (requests_get env url ps)) (\<lambda>response.
     io_bind (raise_for_status response) (\<lambda>_.
     io_return response))"

text \<open>
  \<^verbatim>\<open>for attempt in range(max_retries)\<close>, over the attempts still to make. When the loop
  ends without a \<^verbatim>\<open>return\<close> (only for \<^verbatim>\<open>max_retries = 0\<close>) the function returns \<^verbatim>\<open>None\<close>.
\<close>

fun safe_request_loop ::
  "'w env \<Rightarrow> string \<Rightarrow> params \<Rightarrow> nat \<Rightarrow> nat list \<Rightarrow> (response option, 'w) io" where
  "safe_request_loop env url ps max_retries [] = io_return None"
| "safe_request_loop env url ps max_retries (attempt # rest) =
     io_try
       (io_bind (http_attempt env url ps) (\<lambda>response. io_return (Some response)))
       is_RequestException
       (\<lambda>e. if attempt < max_retries - 1
            then io_bind (time_sleep (2 ^ attempt)) (\<lambda>_.
                 safe_request_loop env url ps max_retries rest)
            else io_return None)"

definition safe_request :: "'w env \<Rightarrow> string \<Rightarrow> params \<Rightarrow> nat \<Rightarrow> (response option, 'w) io" where
  "safe_request env url ps max_retries =
     safe_request_loop env url ps max_retries [0..<max_retries]"

text \<open>The number of requests sent, and the waits, in a list of events.\<close>

fun is_HttpGet :: "event \<Rightarrow> bool" where
  "is_HttpGet (HttpGet url) = True"
| "is_HttpGet e = False"

definition attempts :: "event list \<Rightarrow> nat" where
  "attempts evs = length (filter is_HttpGet evs)"

fun sleeps :: "event list \<Rightarrow> int list" where
  "sleeps [] = []"
| "sleeps (Sleep d # evs) = d # sleeps evs"
| "sleeps (e # evs) = sleeps evs"

text \<open>The conditions the specification calls transient and permanent.\<close>

fun transient :: "exn \<Rightarrow> bool" where
  "transient (Exn ConnectionError m) = True"
| "transient (Exn Timeout m) = True"
| "transient (Exn (HTTPError n) m) = (500 \<le> n \<and> n < 600)"
| "transient (Exn c m) = False"

fun permanent :: "exn \<Rightarrow> bool" where
  "permanent (Exn (HTTPError n) m) = (400 \<le> n \<and> n < 500)"
| "permanent (Exn InvalidURL m) = True"
| "permanent (Exn c m) = False"

text \<open>Two sources for the examples: one answers every request with the given status and an
  empty body, one raises the given exception on every request. Nothing else is available.\<close>

definition no_soup :: soup where
  "no_soup = \<lparr>company_name_tag = (\<lambda>symbol. Inr None), price_tag = Inr None,
     all_divs = Inr [], info_rows = Inr []\<rparr>"

definition no_v1_soup :: v1_soup where
  "no_v1_soup = \<lparr>v1_header = None, v1_price_tag = None, v1_market_cap_td = None,
     v1_ratio_rows = None, v1_info_rows = [], v1_avg_volume_td = None\<rparr>"

definition offline :: "('w \<Rightarrow> (exn + response) \<times> 'w) \<Rightarrow> 'w env" where
  "offline get =
     \<lparr>requests_get = (\<lambda>url ps. get),
      json_loads = (\<lambda>s. Inr (VDict [])),
      bs_tables = (\<lambda>s. Inr []),
      bs_hrefs = (\<lambda>s. Inr []),
      bs_soup = (\<lambda>s. Inr no_soup),
      bs_v1_soup = (\<lambda>s. Inr no_v1_soup),
      bs_v1_rendered = (\<lambda>s. Inr \<lparr>v1_name_tag = None, v1_last_price_tag = None, v1_divs = []\<rparr>),
      webdriver_Chrome = (\<lambda>w. (Inl (Exn WebDriverException ''chrome not reachable''), w)),
      driver_get = (\<lambda>d url w. (Inr (), w)),
      driver_page_source = (\<lambda>d w. (Inr [], w)),
      driver_refresh = (\<lambda>d w. (Inr (), w)),
      driver_quit = (\<lambda>d w. (Inr (), w)),
      datetime_now = (\<lambda>w. (''2024-01-01T00:00:00'', w)),
      datetime_today = (\<lambda>w. (0, w)),
      strftime = (\<lambda>d. ''2024-01-01''),
      os_makedirs = (\<lambda>p w. (Inr (), w)),
      file_open = (\<lambda>p w. (Inr (), w)),
      file_write = (\<lambda>p s w. (Inr (), w)),
      json_dumps = (\<lambda>v. Inr []),
      logger_level = 0\<rparr>"

definition always_status :: "nat \<Rightarrow> unit env" where
  "always_status n = offline (\<lambda>w. (Inr \<lparr>status_code = n, resp_text = []\<rparr>, w))"

definition always_raises :: "exn \<Rightarrow> unit env" where
  "always_raises e = offline (\<lambda>w. (Inl e, w))"

section \<open>Company highlights: the rows of the table\<close>

text \<open>Thai text, as UTF-8: the two words that mark the highlights table (line 217).\<close>

definition thai_year :: string where
  "thai_year = [CHR 0xE0, CHR 0xB8, CHR 0x9B, CHR 0xE0, CHR 0xB8, CHR 0xB5]"

definition thai_total_revenue :: string where
  "thai_total_revenue =
     [CHR 0xE0, CHR 0xB8, CHR 0xA3, CHR 0xE0, CHR 0xB8, CHR 0xB2, CHR 0xE0, CHR 0xB8, CHR 0xA2,
      CHR 0xE0, CHR 0xB9, CHR 0x84, CHR 0xE0, CHR 0xB8, CHR 0x94, CHR 0xE0, CHR 0xB9, CHR 0x89,
      CHR 0xE0, CHR 0xB8, CHR 0xA3, CHR 0xE0, CHR 0xB8, CHR 0xA7, CHR 0xE0, CHR 0xB8, CHR 0xA1]"

text \<open>\<^verbatim>\<open>float(c) if c and c != '-' else None\<close> (lines 225 to 232)\<close>

definition float_or_None :: "string \<Rightarrow> exn + pyval" where
  "float_or_None c =
     (if c \<noteq> [] \<and> c \<noteq> ''-'' then ebind (py_float c) (\<lambda>f. Inr (VFloat f)) else Inr VNone)"

text \<open>\<^verbatim>\<open>int(c) if c else None\<close> (line 224)\<close>

definition int_or_None :: "string \<Rightarrow> exn + pyval" where
  "int_or_None c = (if c \<noteq> [] then ebind (py_int c) (\<lambda>n. Inr (VInt n)) else Inr VNone)"

text \<open>
  The body of the \<^verbatim>\<open>try\<close> for one row (lines 221 to 234): \<open>row\<close> holds the texts of the
  \<^verbatim>\<open>td\<close> cells. \<open>Inr None\<close>: fewer than nine cells, nothing is appended.
\<close>

definition highlights_item :: "string list \<Rightarrow> exn + pyval option" where
  "highlights_item row =
     (let cols = map (remove_char CHR '','') row in
      if length cols \<ge> 9 then
        ebind (int_or_None (cols ! 0)) (\<lambda>year.
        ebind (float_or_None (cols ! 1)) (\<lambda>revenue.
        ebind (float_or_None (cols ! 2)) (\<lambda>net_profit.
        ebind (float_or_None (cols ! 3)) (\<lambda>eps.
        ebind (float_or_None (cols ! 4)) (\<lambda>bvps.
        ebind (float_or_None (cols ! 5)) (\<lambda>roe.
        ebind (float_or_None (cols ! 6)) (\<lambda>net_profit_margin.
        ebind (float_or_None (cols ! 7)) (\<lambda>pe.
        ebind (float_or_None (cols ! 8)) (\<lambda>pbv.
        Inr (Some (VDict
          [(''year'', year), (''revenue'', revenue), (''net_profit'', net_profit),
           (''eps'', eps), (''bvps'', bvps), (''roe'', roe),
           (''net_profit_margin'', net_profit_margin), (''pe'', pe), (''pbv'', pbv)])))))))))))
      else Inr None)"

text \<open>
  The loop over the rows (lines 219 to 237): a row whose body raises \<^verbatim>\<open>ValueError\<close> or
  \<^verbatim>\<open>IndexError\<close> is skipped; another exception leaves the loop.
\<close>

fun highlights_rows :: "string list list \<Rightarrow> exn + pyval list" where
  "highlights_rows [] = Inr []"
| "highlights_rows (row # rows) =
     (case highlights_item row of
        Inl e \<Rightarrow> if is_ValueError_or_IndexError e then highlights_rows rows else Inl e
      | Inr None \<Rightarrow> highlights_rows rows
      | Inr (Some entry) \<Rightarrow> ebind (highlights_rows rows) (\<lambda>entries. Inr (entry # entries)))"

text \<open>The loop over the tables (lines 216 to 237): \<^verbatim>\<open>find_all("tr")[1:]\<close> drops the first
  row.\<close>

fun highlights_tables :: "table list \<Rightarrow> exn + pyval list" where
  "highlights_tables [] = Inr []"
| "highlights_tables (t # ts) =
     (if contains (table_text t) thai_year \<and> contains (table_text t) thai_total_revenue
      then ebind (highlights_rows (drop 1 (table_rows t))) (\<lambda>entries.
           ebind (highlights_tables ts) (\<lambda>more. Inr (entries @ more)))
      else highlights_tables ts)"

section \<open>main.py: the ratio table of \<^verbatim>\<open>fetch_factsheet\<close>\<close>

text \<open>
  Lines 54 to 60 of main.py, for the text \<open>val\<close> of the second cell after \<^verbatim>\<open>strip()\<close>:
  \<^verbatim>\<open>try: val = float(val.replace("%", "").replace(",", ""))  except: pass\<close>
\<close>

definition v1_ratio_value :: "string \<Rightarrow> pyval" where
  "v1_ratio_value val =
     (case py_float (remove_char CHR '','' (remove_char CHR ''%'' val)) of
        Inr f \<Rightarrow> VFloat f
      | Inl e \<Rightarrow> VStr val)"

section \<open>The financial-statement index: metadata from the file name\<close>

text \<open>
  Lines 306 to 318 of main2.py (227 to 235 of main.py, the same expressions): the entry
  appended to \<^verbatim>\<open>file_links\<close> for a link that passed the two tests.
\<close>

definition file_url_of :: "string \<Rightarrow> string" where
  "file_url_of href = (if startswith href ''http'' then href else ''https://www.set.or.th'' @ href)"

definition file_name_of :: "string \<Rightarrow> string" where
  "file_name_of file_url = lower (last (str_split CHR ''/'' file_url))"

definition statement_entry :: "string \<Rightarrow> pyval" where
  "statement_entry file_url =
     (let file_name = file_name_of file_url;
          year_match = search_year file_name;
          period_match = search_period file_name
      in VDict
        [(''url'', VStr file_url),
         (''year'', case year_match of Some y \<Rightarrow> VStr y | None \<Rightarrow> VNone),
         (''period'', case period_match of Some p \<Rightarrow> VStr (upper p) | None \<Rightarrow> VStr ''UNKNOWN''),
         (''language'', VStr (if contains file_name ''th'' then ''th''
                             else if contains file_name ''en'' then ''en'' else ''unknown'')),
         (''type'', VStr (upper (last (str_split CHR ''.'' file_url))))])"

text \<open>
  The loop over the links (lines 301 to 321): a link is kept when it ends in one of the
  three extensions and contains the symbol, both without regard to case.
\<close>

definition statement_links :: "string \<Rightarrow> string list \<Rightarrow> pyval list" where
  "statement_links symbol hrefs =
     map (\<lambda>href. statement_entry (file_url_of href))
       (filter (\<lambda>href. is_statement_href href \<and> contains (lower href) (lower symbol)) hrefs)"

text \<open>The symbols whose collection started, in a list of events.\<close>

fun collected :: "event list \<Rightarrow> string list" where
  "collected [] = []"
| "collected (Collecting symbol # evs) = symbol # collected evs"
| "collected (e # evs) = collected evs"

text \<open>A computation that starts no collection.\<close>

definition quiet :: "('a, 'w) io \<Rightarrow> bool" where
  "quiet m = (\<forall>w. collected (events (m w)) = [])"

section \<open>Rate limiting and the browser\<close>

text \<open>The wrapper of the decorator \<^verbatim>\<open>rate_limit(delay)\<close>: sleep, then call.\<close>

definition rate_limit :: "int \<Rightarrow> ('a, 'w) io \<Rightarrow> ('a, 'w) io" where
  "rate_limit delay func = io_bind (time_sleep delay) (\<lambda>_. func)"

text \<open>One call of \<^verbatim>\<open>webdriver.Chrome(options=options)\<close>.\<close>

definition start_chrome :: "'w env \<Rightarrow> (nat, 'w) io" where
  "start_chrome env =
     io_bind (io_call [ChromeStart] (webdriver_Chrome env)) (\<lambda>driver.
     io_bind (io_call [DriverCreated driver] (\<lambda>w. (Inr (), w))) (\<lambda>_.
     io_return driver))"

text \<open>\<^verbatim>\<open>get_safe_driver\<close>: \<^verbatim>\<open>for attempt in range(max_retries)\<close>, over the attempts still to
  make; \<^verbatim>\<open>None\<close> when every attempt raised \<^verbatim>\<open>WebDriverException\<close>.\<close>

fun get_safe_driver_loop :: "'w env \<Rightarrow> nat \<Rightarrow> nat list \<Rightarrow> (nat option, 'w) io" where
  "get_safe_driver_loop env max_retries [] = io_return None"
| "get_safe_driver_loop env max_retries (attempt # rest) =
     io_try
       (io_bind (start_chrome env) (\<lambda>driver. io_return (Some driver)))
       is_WebDriverException
       (\<lambda>e. if attempt < max_retries - 1
            then io_bind (time_sleep 2) (\<lambda>_. get_safe_driver_loop env max_retries rest)
            else io_return None)"

definition get_safe_driver :: "'w env \<Rightarrow> nat \<Rightarrow> (nat option, 'w) io" where
  "get_safe_driver env max_retries = get_safe_driver_loop env max_retries [0..<max_retries]"

section \<open>The rendered factsheet: \<^verbatim>\<open>fetch_factsheet_selenium\<close>\<close>

definition factsheet_url :: "string \<Rightarrow> string" where
  "factsheet_url symbol =
     ''https://www.set.or.th/th/market/product/stock/quote/'' @ symbol @ ''/factsheet''"

text \<open>Thai text, as UTF-8: the "no data found" marker of line 102, the market-capitalisation
  label of line 143 and the unit "million baht" of line 145.\<close>

definition thai_not_found :: string where
  "thai_not_found =
     [CHR 0xE0, CHR 0xB9, CHR 0x84, CHR 0xE0, CHR 0xB8, CHR 0xA1, CHR 0xE0, CHR 0xB9, CHR 0x88,
      CHR 0xE0, CHR 0xB8, CHR 0x9E, CHR 0xE0, CHR 0xB8, CHR 0x9A, CHR 0xE0, CHR 0xB8, CHR 0x82,
      CHR 0xE0, CHR 0xB9, CHR 0x89, CHR 0xE0, CHR 0xB8, CHR 0xAD, CHR 0xE0, CHR 0xB8, CHR 0xA1,
      CHR 0xE0, CHR 0xB8, CHR 0xB9, CHR 0xE0, CHR 0xB8, CHR 0xA5]"

definition thai_market_cap :: string where
  "thai_market_cap =
     [CHR 0xE0, CHR 0xB8, CHR 0xA1, CHR 0xE0, CHR 0xB8, CHR 0xB9, CHR 0xE0, CHR 0xB8, CHR 0xA5,
      CHR 0xE0, CHR 0xB8, CHR 0x84, CHR 0xE0, CHR 0xB9, CHR 0x88, CHR 0xE0, CHR 0xB8, CHR 0xB2,
      CHR 0xE0, CHR 0xB8, CHR 0xAB, CHR 0xE0, CHR 0xB8, CHR 0xA5, CHR 0xE0, CHR 0xB8, CHR 0xB1,
      CHR 0xE0, CHR 0xB8, CHR 0x81, CHR 0xE0, CHR 0xB8, CHR 0x97, CHR 0xE0, CHR 0xB8, CHR 0xA3,
      CHR 0xE0, CHR 0xB8, CHR 0xB1, CHR 0xE0, CHR 0xB8, CHR 0x9E, CHR 0xE0, CHR 0xB8, CHR 0xA2,
      CHR 0xE0, CHR 0xB9, CHR 0x8C, CHR 0xE0, CHR 0xB8, CHR 0x95, CHR 0xE0, CHR 0xB8, CHR 0xB2,
      CHR 0xE0, CHR 0xB8, CHR 0xA1, CHR 0xE0, CHR 0xB8, CHR 0xA3, CHR 0xE0, CHR 0xB8, CHR 0xB2,
      CHR 0xE0, CHR 0xB8, CHR 0x84, CHR 0xE0, CHR 0xB8, CHR 0xB2, CHR 0xE0, CHR 0xB8, CHR 0x95,
      CHR 0xE0, CHR 0xB8, CHR 0xA5, CHR 0xE0, CHR 0xB8, CHR 0xB2, CHR 0xE0, CHR 0xB8, CHR 0x94]"

definition thai_million_baht :: string where
  "thai_million_baht =
     [CHR 0xE0, CHR 0xB8, CHR 0xA5, CHR 0xE0, CHR 0xB9, CHR 0x89, CHR 0xE0, CHR 0xB8, CHR 0xB2,
      CHR 0xE0, CHR 0xB8, CHR 0x99, CHR 0xE0, CHR 0xB8, CHR 0x9A, CHR 0xE0, CHR 0xB8, CHR 0xB2,
      CHR 0xE0, CHR 0xB8, CHR 0x97]"

text \<open>\<^verbatim>\<open>len(s)\<close>: the code points of a UTF-8 text are its bytes outside 0x80 to 0xBF.\<close>

definition py_len :: "string \<Rightarrow> nat" where
  "py_len s = length (filter (\<lambda>c. \<not> (128 \<le> (of_char c :: nat) \<and> (of_char c :: nat) < 192)) s)"

text \<open>\<^verbatim>\<open>s.replace(old, "")\<close> for a non-empty \<open>old\<close>: every occurrence from the left, none
  overlapping; \<open>skip\<close> counts the characters of a match still to drop.\<close>

fun remove_substr :: "string \<Rightarrow> nat \<Rightarrow> string \<Rightarrow> string" where
  "remove_substr old skip [] = []"
| "remove_substr old skip (c # cs) =
     (if 0 < skip then remove_substr old (skip - 1) cs
      else if startswith (c # cs) old then remove_substr old (length old - 1) cs
      else c # remove_substr old 0 cs)"

text \<open>Line 102: the test reads \<^verbatim>\<open>driver.page_source\<close> once, and once more when the marker is
  absent.\<close>

definition page_incomplete :: "'w env \<Rightarrow> nat \<Rightarrow> (bool, 'w) io" where
  "page_incomplete env driver =
     io_bind (io_call [] (driver_page_source env driver)) (\<lambda>source.
     if contains source thai_not_found then io_return True
     else io_bind (io_call [] (driver_page_source env driver)) (\<lambda>source2.
          io_return (py_len source2 < 1000)))"

text \<open>Lines 96 to 106: load, settle for five seconds, and reload once when the page looks
  incomplete.\<close>

definition load_page :: "'w env \<Rightarrow> nat \<Rightarrow> string \<Rightarrow> (unit, 'w) io" where
  "load_page env driver url =
     io_bind (io_call [DriverGet driver url] (driver_get env driver url)) (\<lambda>_.
     io_bind (time_sleep 5) (\<lambda>_.
     io_bind (page_incomplete env driver) (\<lambda>incomplete.
     if incomplete
     then io_bind (io_call [DriverRefresh driver] (driver_refresh env driver)) (\<lambda>_. time_sleep 5)
     else io_return ())))"

text \<open>Lines 112 to 121: the company name, \<^verbatim>\<open>None\<close> when no selector matches or the lookup
  raises.\<close>

definition company_name_field :: "soup \<Rightarrow> string \<Rightarrow> pyval" where
  "company_name_field sp symbol =
     (case company_name_tag sp symbol of
        Inl e \<Rightarrow> VNone
      | Inr None \<Rightarrow> VNone
      | Inr (Some t) \<Rightarrow> VStr (strip t))"

text \<open>Lines 124 to 137: \<^verbatim>\<open>re.sub(r'[^\d.]', '', price_tag.text)\<close>, then \<^verbatim>\<open>float\<close>.\<close>

definition price_field :: "soup \<Rightarrow> pyval" where
  "price_field sp =
     (case price_tag sp of
        Inl e \<Rightarrow> VNone
      | Inr None \<Rightarrow> VNone
      | Inr (Some t) \<Rightarrow>
          (let price_text = filter (\<lambda>c. is_digit c \<or> c = CHR ''.'') t in
           if price_text \<noteq> [] then
             (case py_float price_text of Inl e \<Rightarrow> VNone | Inr f \<Rightarrow> VFloat f)
           else VNone))"

text \<open>Lines 140 to 151: the first \<^verbatim>\<open>div\<close> with the label whose next \<^verbatim>\<open>div\<close> parses; a
  \<^verbatim>\<open>div\<close> whose next one is missing or does not parse is passed over.\<close>

fun market_cap_loop :: "div_tag list \<Rightarrow> pyval" where
  "market_cap_loop [] = VNone"
| "market_cap_loop (d # ds) =
     (if div_text d \<noteq> [] \<and> contains (div_text d) thai_market_cap then
        (case next_div_text d of
           None \<Rightarrow> market_cap_loop ds
         | Some t \<Rightarrow>
             (case py_float (remove_substr thai_million_baht 0 (remove_char CHR '','' (strip t))) of
                Inl e \<Rightarrow> market_cap_loop ds
              | Inr f \<Rightarrow> VFloat (times_1e6 f)))
      else market_cap_loop ds)"

definition market_cap_field :: "soup \<Rightarrow> pyval" where
  "market_cap_field sp = (case all_divs sp of Inl e \<Rightarrow> VNone | Inr ds \<Rightarrow> market_cap_loop ds)"

text \<open>Lines 154 to 174: the first two cells of every row, when neither is empty.\<close>

fun table_entries :: "string list list \<Rightarrow> (string \<times> pyval) list \<Rightarrow> (string \<times> pyval) list" where
  "table_entries [] table_data = table_data"
| "table_entries (cols # rows) table_data =
     (if length cols \<ge> 2 \<and> strip (cols ! 0) \<noteq> [] \<and> strip (cols ! 1) \<noteq> []
      then table_entries rows (AList.update (strip (cols ! 0)) (VStr (strip (cols ! 1))) table_data)
      else table_entries rows table_data)"

definition factsheet_table_field :: "soup \<Rightarrow> pyval" where
  "factsheet_table_field sp =
     VDict (case info_rows sp of Inl e \<Rightarrow> [] | Inr rows \<Rightarrow> table_entries rows [])"

definition parse_factsheet :: "soup \<Rightarrow> string \<Rightarrow> pyval" where
  "parse_factsheet sp symbol =
     VDict [(''symbol'', VStr symbol),
            (''company_name'', company_name_field sp symbol),
            (''price'', price_field sp),
            (''market_cap'', market_cap_field sp),
            (''factsheet_table'', factsheet_table_field sp)]"

text \<open>Lines 180 to 182: the page is written to a file when \<^verbatim>\<open>logger.level <= logging.DEBUG\<close>.\<close>

definition debug_dump :: "'w env \<Rightarrow> string \<Rightarrow> nat \<Rightarrow> (unit, 'w) io" where
  "debug_dump env symbol driver =
     (if logger_level env \<le> 10 then
        io_bind (io_call [FileOpen (''debug_'' @ symbol @ ''_factsheet.html'')]
                   (file_open env (''debug_'' @ symbol @ ''_factsheet.html''))) (\<lambda>_.
        io_bind (io_call [] (driver_page_source env driver)) (\<lambda>source.
        io_call [FileWrite (''debug_'' @ symbol @ ''_factsheet.html'')]
          (file_write env (''debug_'' @ symbol @ ''_factsheet.html'') source)))
      else io_return ())"

text \<open>Lines 95 to 184: what the \<^verbatim>\<open>try\<close> does once it has a browser.\<close>

definition factsheet_body :: "'w env \<Rightarrow> string \<Rightarrow> nat \<Rightarrow> (pyval, 'w) io" where
  "factsheet_body env symbol driver =
     io_bind (load_page env driver (factsheet_url symbol)) (\<lambda>_.
     io_bind (io_call [] (driver_page_source env driver)) (\<lambda>source.
     io_bind (io_pure (bs_soup env source)) (\<lambda>sp.
     io_bind (io_call [] (driver_page_source env driver)) (\<lambda>_.
     io_bind (debug_dump env symbol driver) (\<lambda>_.
     io_return (parse_factsheet sp symbol))))))"

text \<open>\<^verbatim>\<open>finally: if driver: try: driver.quit() except: pass\<close>\<close>

definition quit_quietly :: "'w env \<Rightarrow> nat \<Rightarrow> (unit, 'w) io" where
  "quit_quietly env driver =
     io_try (io_call [DriverQuit driver] (driver_quit env driver)) is_Exception
       (\<lambda>e. io_return ())"

definition error_record :: "string \<Rightarrow> string \<Rightarrow> pyval" where
  "error_record symbol message = VDict [(''symbol'', VStr symbol), (''error'', VStr message)]"

text \<open>
  \<^verbatim>\<open>fetch_factsheet_selenium\<close> (lines 84 to 194). The variable \<^verbatim>\<open>driver\<close> holds a browser
  only when \<^verbatim>\<open>get_safe_driver\<close> returned one, and only then does the \<^verbatim>\<open>finally\<close> clause
  call \<^verbatim>\<open>quit\<close>; it does so after the \<^verbatim>\<open>try\<close> and its \<^verbatim>\<open>except\<close> clause, whatever they did.
\<close>

definition fetch_factsheet_selenium :: "'w env \<Rightarrow> string \<Rightarrow> (pyval, 'w) io" where
  "fetch_factsheet_selenium env symbol =
     rate_limit 2
       (io_bind
          (io_try (io_bind (get_safe_driver env 3) (\<lambda>driver. io_return (Inr driver)))
             is_Exception (\<lambda>e. io_return (Inl e))) (\<lambda>got.
        case got of
          Inl e \<Rightarrow> io_return (error_record symbol (str_exn e))
        | Inr None \<Rightarrow> io_return (error_record symbol ''Failed to create driver'')
        | Inr (Some driver) \<Rightarrow>
            io_bind
              (io_try (factsheet_body env symbol driver) is_Exception
                 (\<lambda>e. io_return (error_record symbol (str_exn e)))) (\<lambda>data.
            io_bind (quit_quietly env driver) (\<lambda>_.
            io_return data))))"

section \<open>The extractors over HTTP\<close>

definition highlights_url :: "string \<Rightarrow> string" where
  "highlights_url symbol =
     ''https://www.set.or.th/th/market/product/stock/quote/'' @ symbol
       @ ''/financial-statement/company-highlights''"

definition rights_url :: "string \<Rightarrow> string" where
  "rights_url symbol =
     ''https://www.set.or.th/api/set/company-rights-and-benefits/'' @ symbol @ ''?type=financial''"

definition statements_url :: "string \<Rightarrow> string" where
  "statements_url symbol =
     ''https://www.set.or.th/th/market/product/stock/quote/'' @ symbol
       @ ''/financial-statement/financial-position''"

definition price_chart_url :: string where
  "price_chart_url = ''https://www.set.or.th/api/set/stock/price-chart''"

text \<open>\<^verbatim>\<open>fetch_company_highlights\<close> (lines 196 to 244). A response that \<^verbatim>\<open>safe_request\<close>
  returns has passed \<^verbatim>\<open>raise_for_status\<close>, so it is true in \<^verbatim>\<open>if not response\<close>.\<close>

definition fetch_company_highlights :: "'w env \<Rightarrow> string \<Rightarrow> (pyval, 'w) io" where
  "fetch_company_highlights env symbol =
     rate_limit 1
       (io_try
          (io_bind (safe_request env (highlights_url symbol) [] 3) (\<lambda>response.
           case response of
             None \<Rightarrow> io_return (error_record symbol ''Failed to fetch highlights page'')
           | Some r \<Rightarrow>
               io_bind (io_pure (bs_tables env (resp_text r))) (\<lambda>tables.
               io_bind (io_pure (highlights_tables tables)) (\<lambda>financials.
               io_return (VDict [(''symbol'', VStr symbol),
                  (''highlights'', VDict [(''financials'', VList financials)])])))))
          is_Exception
          (\<lambda>e. io_return (error_record symbol (str_exn e))))"

text \<open>The names of the types, for the messages of \<^verbatim>\<open>AttributeError\<close> and \<^verbatim>\<open>TypeError\<close>.\<close>

fun type_name :: "pyval \<Rightarrow> string" where
  "type_name VNone = ''NoneType''"
| "type_name (VBool b) = ''bool''"
| "type_name (VInt n) = ''int''"
| "type_name (VFloat f) = ''float''"
| "type_name (VStr s) = ''str''"
| "type_name (VList xs) = ''list''"
| "type_name (VDict kvs) = ''dict''"

text \<open>\<^verbatim>\<open>d.get(key, default)\<close>: only a dict has the method.\<close>

fun dict_get :: "pyval \<Rightarrow> string \<Rightarrow> pyval \<Rightarrow> exn + pyval" where
  "dict_get (VDict kvs) k dflt = Inr (case map_of kvs k of Some v \<Rightarrow> v | None \<Rightarrow> dflt)"
| "dict_get d k dflt =
     Inl (Exn AttributeError
       ([CHR 0x27] @ type_name d @ [CHR 0x27] @ '' object has no attribute ''
          @ [CHR 0x27] @ ''get'' @ [CHR 0x27]))"

text \<open>\<^verbatim>\<open>for x in v\<close>: the items of a list, the keys of a dict, the characters of a string.\<close>

fun iterate :: "pyval \<Rightarrow> exn + pyval list" where
  "iterate (VList xs) = Inr xs"
| "iterate (VDict kvs) = Inr (map (\<lambda>kv. VStr (fst kv)) kvs)"
| "iterate (VStr s) = Inr (map (\<lambda>c. VStr [c]) s)"
| "iterate v =
     Inl (Exn TypeError ([CHR 0x27] @ type_name v @ [CHR 0x27] @ '' object is not iterable''))"

text \<open>\<^verbatim>\<open>len(v)\<close>, called for the log line 357.\<close>

fun len :: "pyval \<Rightarrow> exn + nat" where
  "len (VList xs) = Inr (length xs)"
| "len (VDict kvs) = Inr (length kvs)"
| "len (VStr s) = Inr (py_len s)"
| "len v =
     Inl (Exn TypeError (''object of type '' @ [CHR 0x27] @ type_name v @ [CHR 0x27]
        @ '' has no len()''))"

text \<open>Thai text, as UTF-8: the rights type "dividend" (line 266).\<close>

definition thai_dividend :: string where
  "thai_dividend =
     [CHR 0xE0, CHR 0xB9, CHR 0x80, CHR 0xE0, CHR 0xB8, CHR 0x87, CHR 0xE0, CHR 0xB8, CHR 0xB4,
      CHR 0xE0, CHR 0xB8, CHR 0x99, CHR 0xE0, CHR 0xB8, CHR 0x9B, CHR 0xE0, CHR 0xB8, CHR 0xB1,
      CHR 0xE0, CHR 0xB8, CHR 0x99, CHR 0xE0, CHR 0xB8, CHR 0x9C, CHR 0xE0, CHR 0xB8, CHR 0xA5]"

text \<open>The body of the \<^verbatim>\<open>try\<close> for one item (lines 266 to 275). \<open>Inr None\<close>: another type
  of right, nothing is appended.\<close>

definition dividend_entry :: "pyval \<Rightarrow> exn + pyval option" where
  "dividend_entry it =
     ebind (dict_get it ''rightsType'' VNone) (\<lambda>rights_type.
     if rights_type = VStr thai_dividend then
       ebind (dict_get it ''entitlementYear'' VNone) (\<lambda>year.
       ebind (dict_get it ''benefitType'' VNone) (\<lambda>benefit_type.
       ebind (dict_get it ''signPostDate'' VNone) (\<lambda>announce_date.
       ebind (dict_get it ''xdDate'' VNone) (\<lambda>xd_date.
       ebind (dict_get it ''paymentDate'' VNone) (\<lambda>payment_date.
       ebind (dict_get it ''amount'' VNone) (\<lambda>amount.
       ebind (dict_get it ''remark'' VNone) (\<lambda>note.
       Inr (Some (VDict
         [(''year'', year), (''type'', benefit_type), (''announce_date'', announce_date),
          (''xd_date'', xd_date), (''payment_date'', payment_date),
          (''amount_per_share'', amount), (''note'', note)])))))))))
     else Inr None)"

text \<open>The loop of lines 264 to 278: an item whose body raises is skipped.\<close>

fun dividend_loop :: "pyval list \<Rightarrow> pyval list" where
  "dividend_loop [] = []"
| "dividend_loop (it # its) =
     (case dividend_entry it of
        Inl e \<Rightarrow> dividend_loop its
      | Inr None \<Rightarrow> dividend_loop its
      | Inr (Some d) \<Rightarrow> d # dividend_loop its)"

text \<open>\<^verbatim>\<open>response.json()\<close> inside \<^verbatim>\<open>try ... except json.JSONDecodeError\<close>: \<open>Inl record\<close> is the
  early return of the handler.\<close>

definition response_json :: "'w env \<Rightarrow> response \<Rightarrow> pyval \<Rightarrow> (pyval + pyval, 'w) io" where
  "response_json env r invalid =
     io_try (io_bind (io_pure (json_loads env (resp_text r))) (\<lambda>data. io_return (Inr data)))
       is_JSONDecodeError (\<lambda>e. io_return (Inl invalid))"

text \<open>\<^verbatim>\<open>fetch_rights_benefits\<close> (lines 246 to 285)\<close>

definition rights_error :: "string \<Rightarrow> string \<Rightarrow> pyval" where
  "rights_error symbol message =
     VDict [(''symbol'', VStr symbol), (''error'', VStr message), (''dividends'', VList [])]"

definition fetch_rights_benefits :: "'w env \<Rightarrow> string \<Rightarrow> (pyval, 'w) io" where
  "fetch_rights_benefits env symbol =
     rate_limit 1
       (io_try
          (io_bind (safe_request env (rights_url symbol) [] 3) (\<lambda>response.
           case response of
             None \<Rightarrow> io_return (rights_error symbol ''Failed to fetch rights & benefits'')
           | Some r \<Rightarrow>
               io_bind (response_json env r (rights_error symbol ''Invalid JSON response'')) (\<lambda>j.
               case j of
                 Inl invalid \<Rightarrow> io_return invalid
               | Inr data \<Rightarrow>
                   io_bind (io_pure (dict_get data ''data'' (VList []))) (\<lambda>rights.
                   io_bind (io_pure (iterate rights)) (\<lambda>its.
                   io_return (VDict [(''symbol'', VStr symbol),
                      (''dividends'', VList (dividend_loop its))]))))))
          is_Exception
          (\<lambda>e. io_return (rights_error symbol (str_exn e))))"

text \<open>\<^verbatim>\<open>fetch_financial_statements\<close> (lines 287 to 328)\<close>

definition statements_error :: "string \<Rightarrow> string \<Rightarrow> pyval" where
  "statements_error symbol message =
     VDict [(''symbol'', VStr symbol), (''error'', VStr message),
            (''financial_statements'', VList [])]"

definition fetch_financial_statements :: "'w env \<Rightarrow> string \<Rightarrow> (pyval, 'w) io" where
  "fetch_financial_statements env symbol =
     rate_limit 1
       (io_try
          (io_bind (safe_request env (statements_url symbol) [] 3) (\<lambda>response.
           case response of
             None \<Rightarrow>
               io_return (statements_error symbol ''Failed to fetch financial statements page'')
           | Some r \<Rightarrow>
               io_bind (io_pure (bs_hrefs env (resp_text r))) (\<lambda>hrefs.
               io_return (VDict [(''symbol'', VStr symbol),
                  (''financial_statements'', VList (statement_links symbol hrefs))]))))
          is_Exception
          (\<lambda>e. io_return (statements_error symbol (str_exn e))))"

text \<open>\<^verbatim>\<open>fetch_historical_prices\<close> (lines 330 to 362); \<open>months\<close> is 60 by default.\<close>

definition prices_error :: "string \<Rightarrow> string \<Rightarrow> pyval" where
  "prices_error symbol message =
     VDict [(''symbol'', VStr symbol), (''error'', VStr message), (''historical_prices'', VList [])]"

definition price_params :: "'w env \<Rightarrow> string \<Rightarrow> int \<Rightarrow> int \<Rightarrow> params" where
  "price_params env symbol months end_date =
     [(''symbol'', symbol), (''type'', ''month''),
      (''range'', strftime env (end_date - 30 * months) @ ''_'' @ strftime env end_date)]"

definition fetch_historical_prices :: "'w env \<Rightarrow> string \<Rightarrow> int \<Rightarrow> (pyval, 'w) io" where
  "fetch_historical_prices env symbol months =
     rate_limit 1
       (io_try
          (io_bind (io_call [] (\<lambda>w. case datetime_today env w of (d, w1) \<Rightarrow> (Inr d, w1)))
             (\<lambda>end_date.
           io_bind (safe_request env price_chart_url (price_params env symbol months end_date) 3)
             (\<lambda>response.
           case response of
             None \<Rightarrow> io_return (prices_error symbol ''Failed to fetch historical prices'')
           | Some r \<Rightarrow>
               io_bind (response_json env r (prices_error symbol ''Invalid JSON response'')) (\<lambda>j.
               case j of
                 Inl invalid \<Rightarrow> io_return invalid
               | Inr data \<Rightarrow>
                   io_bind (io_pure (dict_get data ''price'' (VList []))) (\<lambda>prices.
                   io_bind (io_pure (len prices)) (\<lambda>_.
                   io_return (VDict [(''symbol'', VStr symbol),
                      (''historical_prices'', prices)])))))))
          is_Exception
          (\<lambda>e. io_return (prices_error symbol (str_exn e))))"

section \<open>Aggregation and the batch\<close>

text \<open>
  \<^verbatim>\<open>save_stock_data\<close> (lines 364 to 392): the dict is built entry by entry, in the order
  written, then saved; any exception gives the record of line 392.
\<close>

definition critical_record :: "string \<Rightarrow> exn \<Rightarrow> pyval" where
  "critical_record symbol e =
     VDict [(''symbol'', VStr symbol), (''error'', VStr (''Critical error: '' @ str_exn e))]"

text \<open>Lines 369 to 377: the dict \<^verbatim>\<open>data\<close>.\<close>

definition collect_data :: "'w env \<Rightarrow> string \<Rightarrow> (pyval, 'w) io" where
  "collect_data env symbol =
     io_bind (io_call [] (\<lambda>w. case datetime_now env w of (t, w1) \<Rightarrow> (Inr t, w1))) (\<lambda>timestamp.
     io_bind (fetch_factsheet_selenium env symbol) (\<lambda>factsheet.
     io_bind (fetch_company_highlights env symbol) (\<lambda>company_highlights.
     io_bind (fetch_rights_benefits env symbol) (\<lambda>rights_benefits.
     io_bind (fetch_financial_statements env symbol) (\<lambda>financial_statements.
     io_bind (fetch_historical_prices env symbol 60) (\<lambda>historical_trading.
     io_return (VDict
       [(''symbol'', VStr symbol), (''timestamp'', VStr timestamp),
        (''factsheet'', factsheet), (''company_highlights'', company_highlights),
        (''rights_benefits'', rights_benefits),
        (''financial_statements'', financial_statements),
        (''historical_trading'', historical_trading)])))))))"

text \<open>Lines 380 to 385: the directory, the file, \<^verbatim>\<open>json.dump\<close>.\<close>

definition write_snapshot :: "'w env \<Rightarrow> string \<Rightarrow> pyval \<Rightarrow> (unit, 'w) io" where
  "write_snapshot env symbol data =
     io_bind (io_call [MakeDirs ''data''] (os_makedirs env ''data'')) (\<lambda>_.
     io_bind (io_call [FileOpen (''data/'' @ symbol @ ''.json'')]
                (file_open env (''data/'' @ symbol @ ''.json''))) (\<lambda>_.
     io_bind (io_pure (json_dumps env data)) (\<lambda>serialised.
     io_call [FileWrite (''data/'' @ symbol @ ''.json'')]
       (file_write env (''data/'' @ symbol @ ''.json'') serialised))))"

definition save_stock_data :: "'w env \<Rightarrow> string \<Rightarrow> (pyval, 'w) io" where
  "save_stock_data env symbol =
     io_try
       (io_bind (io_call [Collecting symbol] (\<lambda>w. (Inr (), w))) (\<lambda>_.
        io_bind (collect_data env symbol) (\<lambda>data.
        io_bind (write_snapshot env symbol data) (\<lambda>_.
        io_return data))))
       is_Exception
       (\<lambda>e. io_return (critical_record symbol e))"

text \<open>
  One round of the loop of \<^verbatim>\<open>batch_scrape\<close> (lines 402 to 422), for the \<open>i\<close>-th of \<open>n\<close>
  symbols: it returns the dict \<^verbatim>\<open>results\<close> and the list \<^verbatim>\<open>failed_symbols\<close> as the round leaves
  them. What the \<^verbatim>\<open>try\<close> has stored before an exception stays stored when the handler
  runs.
\<close>

type_synonym batch_state = "(string \<times> pyval) list \<times> string list"

definition batch_round ::
  "'w env \<Rightarrow> int \<Rightarrow> nat \<Rightarrow> nat \<Rightarrow> string \<Rightarrow> batch_state \<Rightarrow> (batch_state, 'w) io" where
  "batch_round env delay n i symbol st =
     (case st of (results, failed_symbols) \<Rightarrow>
      io_try
        (io_bind (save_stock_data env symbol) (\<lambda>r.
         io_try
           (io_bind (if i < n then time_sleep delay else io_return ()) (\<lambda>_.
            io_return (AList.update symbol r results,
                       if has_key ''error'' r then failed_symbols @ [symbol] else failed_symbols)))
           is_Exception
           (\<lambda>e. io_return
              (AList.update symbol (critical_record symbol e) (AList.update symbol r results),
               (if has_key ''error'' r then failed_symbols @ [symbol] else failed_symbols)
                 @ [symbol]))))
        is_Exception
        (\<lambda>e. io_return (AList.update symbol (critical_record symbol e) results,
                         failed_symbols @ [symbol])))"

text \<open>\<^verbatim>\<open>for i, symbol in enumerate(symbols, 1)\<close>, from the \<open>i\<close>-th symbol on.\<close>

fun batch_loop ::
  "'w env \<Rightarrow> int \<Rightarrow> nat \<Rightarrow> nat \<Rightarrow> string list \<Rightarrow> batch_state \<Rightarrow> (batch_state, 'w) io" where
  "batch_loop env delay n i [] st = io_return st"
| "batch_loop env delay n i (symbol # symbols) st =
     io_bind (batch_round env delay n i symbol st) (\<lambda>st1.
     batch_loop env delay n (Suc i) symbols st1)"

text \<open>\<^verbatim>\<open>batch_scrape(symbols, delay)\<close>; \<open>delay\<close> is 3 by default.\<close>

definition batch_scrape :: "'w env \<Rightarrow> string list \<Rightarrow> int \<Rightarrow> (batch_state, 'w) io" where
  "batch_scrape env symbols delay = batch_loop env delay (length symbols) 1 symbols ([], [])"


section \<open>main.py: the first version of the factsheet extractors\<close>

text \<open>Thai text, as UTF-8: "dividend" (line 67) and the labels of the 52-week high and low
  (lines 79 and 81).\<close>

definition thai_dividend_word :: string where
  "thai_dividend_word =
     [CHR 0xE0, CHR 0xB8, CHR 0x9B, CHR 0xE0, CHR 0xB8, CHR 0xB1, CHR 0xE0, CHR 0xB8, CHR 0x99,
      CHR 0xE0, CHR 0xB8, CHR 0x9C, CHR 0xE0, CHR 0xB8, CHR 0xA5]"

definition thai_high_52w :: string where
  "thai_high_52w =
     [CHR 0xE0, CHR 0xB8, CHR 0xAA, CHR 0xE0, CHR 0xB8, CHR 0xB9, CHR 0xE0, CHR 0xB8, CHR 0x87,
      CHR 0xE0, CHR 0xB8, CHR 0xAA, CHR 0xE0, CHR 0xB8, CHR 0xB8, CHR 0xE0, CHR 0xB8, CHR 0x94,
      CHR 0x20, CHR 0x35, CHR 0x32, CHR 0x20,
      CHR 0xE0, CHR 0xB8, CHR 0xAA, CHR 0xE0, CHR 0xB8, CHR 0xB1, CHR 0xE0, CHR 0xB8, CHR 0x9B,
      CHR 0xE0, CHR 0xB8, CHR 0x94, CHR 0xE0, CHR 0xB8, CHR 0xB2, CHR 0xE0, CHR 0xB8, CHR 0xAB,
      CHR 0xE0, CHR 0xB9, CHR 0x8C]"

definition thai_low_52w :: string where
  "thai_low_52w =
     [CHR 0xE0, CHR 0xB8, CHR 0x95, CHR 0xE0, CHR 0xB9, CHR 0x88, CHR 0xE0, CHR 0xB8, CHR 0xB3,
      CHR 0xE0, CHR 0xB8, CHR 0xAA, CHR 0xE0, CHR 0xB8, CHR 0xB8, CHR 0xE0, CHR 0xB8, CHR 0x94,
      CHR 0x20, CHR 0x35, CHR 0x32, CHR 0x20,
      CHR 0xE0, CHR 0xB8, CHR 0xAA, CHR 0xE0, CHR 0xB8, CHR 0xB1, CHR 0xE0, CHR 0xB8, CHR 0x9B,
      CHR 0xE0, CHR 0xB8, CHR 0x94, CHR 0xE0, CHR 0xB8, CHR 0xB2, CHR 0xE0, CHR 0xB8, CHR 0xAB,
      CHR 0xE0, CHR 0xB9, CHR 0x8C]"

text \<open>\<^verbatim>\<open>None.text\<close>\<close>

definition none_has_no_text :: exn where
  "none_has_no_text =
     Exn AttributeError ([CHR 0x27] @ ''NoneType'' @ [CHR 0x27] @ '' object has no attribute ''
        @ [CHR 0x27] @ ''text'' @ [CHR 0x27])"

text \<open>Line 34: \<^verbatim>\<open>float(price_tag.text.replace(",", "")) if price_tag else None\<close>\<close>

definition v1_price :: "v1_soup \<Rightarrow> exn + pyval" where
  "v1_price sp =
     (case v1_price_tag sp of
        None \<Rightarrow> Inr VNone
      | Some t \<Rightarrow> ebind (py_float (remove_char CHR '','' t)) (\<lambda>f. Inr (VFloat f)))"

text \<open>Lines 36 to 44: only the \<^verbatim>\<open>float\<close> is inside the \<^verbatim>\<open>try\<close>.\<close>

definition v1_market_cap :: "v1_soup \<Rightarrow> exn + pyval" where
  "v1_market_cap sp =
     (case v1_market_cap_td sp of
        None \<Rightarrow> Inr VNone
      | Some None \<Rightarrow> Inl none_has_no_text
      | Some (Some t) \<Rightarrow>
          Inr (case py_float (remove_char CHR '','' (strip t)) of
                 Inl e \<Rightarrow> VNone
               | Inr f \<Rightarrow> VFloat (times_1e6 f)))"

text \<open>Lines 51 to 60: the rows of the ratio table that have two cells.\<close>

fun v1_ratios :: "string list list \<Rightarrow> (string \<times> pyval) list \<Rightarrow> (string \<times> pyval) list" where
  "v1_ratios [] ratios = ratios"
| "v1_ratios (cols # rows) ratios =
     (if length cols = 2
      then v1_ratios rows (AList.update (strip (cols ! 0)) (v1_ratio_value (strip (cols ! 1))) ratios)
      else v1_ratios rows ratios)"

text \<open>Lines 74 to 82: the \<^verbatim>\<open>float\<close> calls are not guarded.\<close>

fun v1_price_52w ::
  "string list list \<Rightarrow> (string \<times> pyval) list \<Rightarrow> exn + (string \<times> pyval) list" where
  "v1_price_52w [] price_52w = Inr price_52w"
| "v1_price_52w (tds # rows) price_52w =
     (if length tds = 2 then
        (if contains (strip (tds ! 0)) thai_high_52w then
           ebind (py_float (remove_char CHR '','' (strip (tds ! 1)))) (\<lambda>f.
           v1_price_52w rows (AList.update ''high_52w'' (VFloat f) price_52w))
         else if contains (strip (tds ! 0)) thai_low_52w then
           ebind (py_float (remove_char CHR '','' (strip (tds ! 1)))) (\<lambda>f.
           v1_price_52w rows (AList.update ''low_52w'' (VFloat f) price_52w))
         else v1_price_52w rows price_52w)
      else v1_price_52w rows price_52w)"

text \<open>Lines 86 to 92: the key is set only when the \<^verbatim>\<open>th\<close> exists.\<close>

definition v1_avg_volume :: "v1_soup \<Rightarrow> exn + (string \<times> pyval) list" where
  "v1_avg_volume sp =
     (case v1_avg_volume_td sp of
        None \<Rightarrow> Inr []
      | Some None \<Rightarrow> Inl none_has_no_text
      | Some (Some t) \<Rightarrow>
          Inr [(''avg_volume_10d'',
                case py_int (remove_char CHR '','' (strip t)) of
                  Inl e \<Rightarrow> VNone
                | Inr n \<Rightarrow> VInt n)])"

definition v1_factsheet_data :: "v1_soup \<Rightarrow> string \<Rightarrow> exn + pyval" where
  "v1_factsheet_data sp symbol =
     ebind (v1_price sp) (\<lambda>price.
     ebind (v1_market_cap sp) (\<lambda>market_cap.
     let ratios = (case v1_ratio_rows sp of None \<Rightarrow> [] | Some rows \<Rightarrow> v1_ratios rows []);
         dividend_info = filter (\<lambda>kv. contains (fst kv) ''Dividend''
                                      \<or> contains (fst kv) thai_dividend_word) ratios
     in
     ebind (v1_price_52w (v1_info_rows sp) []) (\<lambda>price_52w.
     ebind (v1_avg_volume sp) (\<lambda>avg_volume.
     Inr (VDict
       ([(''symbol'', VStr symbol),
         (''company_name'', case v1_header sp of None \<Rightarrow> VNone | Some t \<Rightarrow> VStr (strip t)),
         (''price'', price), (''market_cap'', market_cap),
         (''financial_ratios'', VDict ratios), (''dividend_info'', VDict dividend_info),
         (''price_52w'', VDict price_52w)] @ avg_volume))))))"

text \<open>\<^verbatim>\<open>fetch_factsheet\<close> of main.py (lines 16 to 94): one request, no \<^verbatim>\<open>try\<close> around it.\<close>

definition v1_fetch_factsheet :: "'w env \<Rightarrow> string \<Rightarrow> (pyval, 'w) io" where
  "v1_fetch_factsheet env symbol =
     io_bind (io_call [HttpGet (factsheet_url symbol)]
                (requests_get env (factsheet_url symbol) [])) (\<lambda>resp.
     io_bind (io_pure (bs_v1_soup env (resp_text resp))) (\<lambda>sp.
     io_pure (v1_factsheet_data sp symbol)))"

text \<open>Lines 276 to 280 of main.py: the text next to the first \<^verbatim>\<open>div\<close> with the label.\<close>

fun v1_market_cap_text :: "div_tag list \<Rightarrow> exn + pyval" where
  "v1_market_cap_text [] = Inr VNone"
| "v1_market_cap_text (d # ds) =
     (if div_text d \<noteq> [] \<and> contains (div_text d) thai_market_cap then
        (case next_div_text d of
           None \<Rightarrow> Inl none_has_no_text
         | Some t \<Rightarrow> Inr (VStr (strip t)))
      else v1_market_cap_text ds)"

text \<open>\<^verbatim>\<open>fetch_factsheet_selenium\<close> of main.py (lines 262 to 287): \<^verbatim>\<open>driver.quit()\<close> is the
  sixth statement, with no \<^verbatim>\<open>try\<close> around the five before it.\<close>

definition v1_fetch_factsheet_selenium :: "'w env \<Rightarrow> string \<Rightarrow> (pyval, 'w) io" where
  "v1_fetch_factsheet_selenium env symbol =
     io_bind (start_chrome env) (\<lambda>driver.
     io_bind (io_call [DriverGet driver (factsheet_url symbol)]
                (driver_get env driver (factsheet_url symbol))) (\<lambda>_.
     io_bind (time_sleep 3) (\<lambda>_.
     io_bind (io_call [] (driver_page_source env driver)) (\<lambda>source.
     io_bind (io_pure (bs_v1_rendered env source)) (\<lambda>sp.
     io_bind (io_call [DriverQuit driver] (driver_quit env driver)) (\<lambda>_.
     io_bind (io_pure (v1_market_cap_text (v1_divs sp))) (\<lambda>market_cap.
     io_return (VDict
       [(''symbol'', VStr symbol),
        (''company_name'', case v1_name_tag sp of None \<Rightarrow> VNone | Some t \<Rightarrow> VStr (strip t)),
        (''price'', case v1_last_price_tag sp of None \<Rightarrow> VNone | Some t \<Rightarrow> VStr (strip t)),
        (''market_cap'', market_cap)]))))))))"

text \<open>The browsers started and the browsers quit, in a list of events.\<close>

fun created :: "event list \<Rightarrow> nat list" where
  "created [] = []"
| "created (DriverCreated d # evs) = d # created evs"
| "created (e # evs) = created evs"

fun quitted :: "event list \<Rightarrow> nat list" where
  "quitted [] = []"
| "quitted (DriverQuit d # evs) = d # quitted evs"
| "quitted (e # evs) = quitted evs"

fun is_refresh :: "event \<Rightarrow> bool" where
  "is_refresh (DriverRefresh d) = True"
| "is_refresh e = False"

definition reloads :: "event list \<Rightarrow> nat" where
  "reloads evs = length (filter is_refresh evs)"

definition chrome_starts :: "event list \<Rightarrow> nat" where
  "chrome_starts evs = length (filter (\<lambda>e. e = ChromeStart) evs)"

text \<open>A browser that fails to load any page, for the examples: it starts as browser 0.\<close>

definition page_load_fails :: "unit env" where
  "page_load_fails =
     (offline (\<lambda>w. (Inl (Exn ConnectionError ''refused''), w)))
       \<lparr>webdriver_Chrome := (\<lambda>w. (Inr 0, w)),
        driver_get := (\<lambda>d url w. (Inl (Exn WebDriverException ''timeout''), w))\<rparr>"

text \<open>A browser that starts as browser 0 and shows an empty page.\<close>

definition empty_page :: "unit env" where
  "empty_page =
     (offline (\<lambda>w. (Inl (Exn ConnectionError ''refused''), w)))
       \<lparr>webdriver_Chrome := (\<lambda>w. (Inr 0, w))\<rparr>"

text \<open>
  Worlds for the examples: every request is answered with status 200 and an empty body and
  no browser starts; the clock and the opening of files are given. \<open>quiet_day_record\<close> is
  the record that \<^verbatim>\<open>save_stock_data\<close> builds there.
\<close>

definition quiet_day ::
  "('w \<Rightarrow> string \<times> 'w) \<Rightarrow> (string \<Rightarrow> 'w \<Rightarrow> (exn + unit) \<times> 'w) \<Rightarrow> 'w env" where
  "quiet_day now opn =
     (offline (\<lambda>w. (Inr \<lparr>status_code = 200, resp_text = []\<rparr>, w)))
       \<lparr>datetime_now := now, file_open := opn\<rparr>"

definition quiet_day_record :: "string \<Rightarrow> string \<Rightarrow> pyval" where
  "quiet_day_record symbol timestamp =
     VDict [(''symbol'', VStr symbol), (''timestamp'', VStr timestamp),
       (''factsheet'',
          VDict [(''symbol'', VStr symbol), (''error'', VStr ''Failed to create driver'')]),
       (''company_highlights'',
          VDict [(''symbol'', VStr symbol), (''highlights'', VDict [(''financials'', VList [])])]),
       (''rights_benefits'', VDict [(''symbol'', VStr symbol), (''dividends'', VList [])]),
       (''financial_statements'',
          VDict [(''symbol'', VStr symbol), (''financial_statements'', VList [])]),
       (''historical_trading'',
          VDict [(''symbol'', VStr symbol), (''historical_prices'', VList [])])]"

text \<open>The file \<open>refused\<close> cannot be opened.\<close>

definition disk_refuses :: "string \<Rightarrow> unit env" where
  "disk_refuses refused =
     quiet_day (\<lambda>w. (''2024-01-01T00:00:00'', w))
       (\<lambda>path w. if path = refused then (Inl (Exn OSError ''denied''), w) else (Inr (), w))"

text \<open>The state of the world is a clock that \<^verbatim>\<open>datetime.now()\<close> reads and advances; no file
  can be opened while the clock shows 1.\<close>

definition ticking :: "nat env" where
  "ticking =
     quiet_day (\<lambda>w. (replicate w CHR ''I'', Suc w))
       (\<lambda>path w. if w = 1 then (Inl (Exn OSError ''denied''), w) else (Inr (), w))"
section \<open>Properties of the transport\<close>

lemma io_bind_return [simp]: "io_bind (io_return a) f = f a"
  by (rule ext) (simp add: io_bind_def io_return_def split: prod.splits)

lemma io_bind_raise [simp]: "io_bind (io_raise e) f = io_raise e"
  by (rule ext) (simp add: io_bind_def io_raise_def)

lemma http_attempt_events:
  "\<exists>r w1. http_attempt env url ps w = (r, [HttpGet url], w1)"
  by (auto simp: http_attempt_def io_bind_def io_call_def raise_for_status_def io_raise_def
      io_return_def split: prod.splits sum.splits)

lemma attempts_append [simp]: "attempts (xs @ ys) = attempts xs + attempts ys"
  by (simp add: attempts_def)

lemma sleeps_append [simp]: "sleeps (xs @ ys) = sleeps xs @ sleeps ys"
  by (induction xs rule: sleeps.induct) auto

text \<open>
  When every attempt ends in a \<^verbatim>\<open>RequestException\<close>, the loop from attempt \<open>k\<close> on makes
  all the remaining attempts, waits \<open>2 ^ attempt\<close> seconds after each but the last, and
  returns \<^verbatim>\<open>None\<close>.
\<close>

lemma safe_request_loop_all_fail:
  assumes fail: "\<forall>w. \<exists>e. result (http_attempt env url ps w) = Inl e \<and> is_RequestException e"
  shows "k \<le> n \<Longrightarrow> \<exists>evs w1. safe_request_loop env url ps n [k..<n] w = (Inr None, evs, w1)
           \<and> attempts evs = n - k \<and> sleeps evs = map (\<lambda>a. 2 ^ a) [k..<n - 1]"
proof (induction "n - k" arbitrary: k w)
  case 0
  then show ?case by (simp add: io_return_def attempts_def)
next
  case (Suc d)
  then have kn: "k < n" and d: "d = n - Suc k" by auto
  from fail obtain e where e: "result (http_attempt env url ps w) = Inl e" "is_RequestException e"
    by blast
  obtain r w1 where a: "http_attempt env url ps w = (r, [HttpGet url], w1)"
    using http_attempt_events [of env url ps w] by blast
  with e have a': "http_attempt env url ps w = (Inl e, [HttpGet url], w1)"
    by (simp add: result_def)
  show ?case
  proof (cases "k < n - 1")
    case True
    then have "Suc k \<le> n" by simp
    from Suc.hyps(1) [OF d this, of w1] obtain evs w2 where
      ih: "safe_request_loop env url ps n [Suc k..<n] w1 = (Inr None, evs, w2)"
        "attempts evs = n - Suc k" "sleeps evs = map (\<lambda>a. 2 ^ a) [Suc k..<n - 1]"
      by blast
    from True have "[k..<n - 1] = k # [Suc k..<n - 1]" by (simp add: upt_conv_Cons)
    with ih a' e kn True show ?thesis
      by (simp add: upt_conv_Cons io_try_def io_bind_def time_sleep_def io_call_def attempts_def)
  next
    case False
    with kn have "n - 1 = k" by simp
    with a' e kn False show ?thesis
      by (simp add: upt_conv_Cons io_try_def io_bind_def io_return_def attempts_def)
  qed
qed

lemma safe_request_all_fail:
  assumes "\<forall>w. \<exists>e. result (http_attempt env url ps w) = Inl e \<and> is_RequestException e"
  shows "\<exists>evs w1. safe_request env url ps max_retries w = (Inr None, evs, w1)
           \<and> attempts evs = max_retries \<and> sleeps evs = map (\<lambda>a. 2 ^ a) [0..<max_retries - 1]"
  using safe_request_loop_all_fail [OF assms, of 0 max_retries w]
  by (simp add: safe_request_def)

lemma transient_RequestException: "transient e \<Longrightarrow> is_RequestException e"
  by (induction e rule: transient.induct) auto

lemma permanent_RequestException: "permanent e \<Longrightarrow> is_RequestException e"
  by (induction e rule: permanent.induct) auto

lemma always_status_attempt:
  "400 \<le> n \<Longrightarrow> n < 600 \<Longrightarrow>
   http_attempt (always_status n) url ps w = (Inl (Exn (HTTPError n) ''HTTPError''), [HttpGet url], w)"
  by (simp add: http_attempt_def always_status_def offline_def io_bind_def io_call_def
      raise_for_status_def io_raise_def)

lemma always_raises_attempt:
  "http_attempt (always_raises e) url ps w = (Inl e, [HttpGet url], w)"
  by (simp add: http_attempt_def always_raises_def offline_def io_bind_def io_call_def)

lemma always_raises_safe_request_3:
  "is_RequestException e \<Longrightarrow> safe_request (always_raises e) url ps 3 w =
     (Inr None, [HttpGet url, Sleep 1, HttpGet url, Sleep 2, HttpGet url], w)"
  by (simp add: safe_request_def upt_rec always_raises_attempt io_try_def io_bind_def
      time_sleep_def io_call_def io_return_def)

text \<open>
  C4 (as stated): a single 404-class response yields Failure after exactly one attempt,
  without consuming the remaining attempts. It fails: \<^verbatim>\<open>raise_for_status\<close> turns the 404
  into an \<^verbatim>\<open>HTTPError\<close>, which the \<^verbatim>\<open>except RequestException\<close> clause retries like any
  other; with \<^verbatim>\<open>max_retries = 3\<close> a source that answers 404 receives three requests.
\<close>

theorem single_404_counterexample:
  "safe_request (always_status 404) ''u'' [] 3 () =
     (Inr None, [HttpGet ''u'', Sleep 1, HttpGet ''u'', Sleep 2, HttpGet ''u''], ()) \<and>
   attempts (events (safe_request (always_status 404) ''u'' [] 3 ())) = 3"
  by (simp add: safe_request_def upt_rec always_status_attempt io_try_def io_bind_def
      time_sleep_def io_call_def io_return_def events_def attempts_def)

text \<open>
  C4 (amended): the transport retries on every \<^verbatim>\<open>RequestException\<close>, permanent conditions
  included: for a source that answers every attempt with a non-retryable condition (a 4xx
  response such as 404, an invalid URL), \<^verbatim>\<open>safe_request\<close> makes \<open>max_retries\<close> attempts and
  then returns \<^verbatim>\<open>None\<close>.
\<close>

theorem permanent_errors_are_retried:
  assumes "\<forall>w. \<exists>e. result (http_attempt env url ps w) = Inl e \<and> permanent e"
  shows "\<exists>evs w1. safe_request env url ps max_retries w = (Inr None, evs, w1)
           \<and> attempts evs = max_retries"
proof -
  from assms have "\<forall>w. \<exists>e. result (http_attempt env url ps w) = Inl e \<and> is_RequestException e"
    using permanent_RequestException by blast
  from safe_request_all_fail [OF this] show ?thesis by blast
qed

theorem permanent_errors_are_retried_witness:
  "(\<forall>w. \<exists>e. result (http_attempt (always_status 404) ''u'' [] w) = Inl e \<and> permanent e) \<and>
   (\<exists>evs w1. safe_request (always_status 404) ''u'' [] 3 () = (Inr None, evs, w1) \<and> attempts evs = 3)"
proof -
  have h: "\<forall>w. \<exists>e. result (http_attempt (always_status 404) ''u'' [] w) = Inl e \<and> permanent e"
    by (simp add: always_status_attempt result_def)
  from h permanent_errors_are_retried [OF h, of 3 "()"] show ?thesis by blast
qed

text \<open>
  C5 (as stated): after \<open>max_retries\<close> failed attempts the transport returns a Failure that
  carries the last error and the attempt count. It fails: the value returned is the bare
  \<^verbatim>\<open>None\<close>. Three timeouts and two connection errors give the same value.
\<close>

theorem failure_carries_nothing_counterexample:
  "result (safe_request (always_raises (Exn Timeout ''timed out'')) ''u'' [] 3 ()) = Inr None \<and>
   attempts (events (safe_request (always_raises (Exn Timeout ''timed out'')) ''u'' [] 3 ())) = 3 \<and>
   result (safe_request (always_raises (Exn ConnectionError ''refused'')) ''u'' [] 2 ()) = Inr None \<and>
   attempts (events (safe_request (always_raises (Exn ConnectionError ''refused'')) ''u'' [] 2 ())) = 2"
  by (simp add: safe_request_def upt_rec always_raises_attempt io_try_def io_bind_def
      time_sleep_def io_call_def io_return_def events_def result_def attempts_def)

text \<open>
  C5 (amended): for a source whose every attempt yields a transient error (connection error,
  timeout, 5xx response), \<^verbatim>\<open>safe_request\<close> makes exactly \<open>max_retries\<close> attempts, waiting
  \<open>2 ^ attempt\<close> seconds after each attempt but the last, and then returns \<^verbatim>\<open>None\<close> without
  raising; the returned value carries neither the last error nor the attempt count.
\<close>

theorem transient_errors_exhaust_retries:
  assumes "\<forall>w. \<exists>e. result (http_attempt env url ps w) = Inl e \<and> transient e"
  shows "\<exists>evs w1. safe_request env url ps max_retries w = (Inr None, evs, w1)
           \<and> attempts evs = max_retries
           \<and> sleeps evs = map (\<lambda>a. 2 ^ a) [0..<max_retries - 1]"
proof -
  from assms have "\<forall>w. \<exists>e. result (http_attempt env url ps w) = Inl e \<and> is_RequestException e"
    using transient_RequestException by blast
  from safe_request_all_fail [OF this] show ?thesis by blast
qed

theorem transient_errors_exhaust_retries_witness:
  "(\<forall>w. \<exists>e. result (http_attempt (always_status 503) ''u'' [] w) = Inl e \<and> transient e) \<and>
   (\<exists>evs w1. safe_request (always_status 503) ''u'' [] 3 () = (Inr None, evs, w1)
      \<and> attempts evs = 3 \<and> sleeps evs = [1, 2])"
proof -
  have h: "\<forall>w. \<exists>e. result (http_attempt (always_status 503) ''u'' [] w) = Inl e \<and> transient e"
    by (simp add: always_status_attempt result_def)
  have "map (\<lambda>a. 2 ^ a) [0..<3 - 1] = [1, 2 :: int]"
    by (simp add: upt_rec)
  with h transient_errors_exhaust_retries [OF h, of 3 "()"] show ?thesis by simp
qed

section \<open>Properties of the financial-statement index\<close>










section \<open>Properties of the numeric coercion\<close>

lemmas number_eval = py_float_def py_int_def strip_with_def is_space_def remove_char_def
  split_sign_def lower_def lower_char_def parse_decimal_def parse_exponent_def is_digit_def
  digits_value_def scale10_def float_error_def int_error_def Let_def

lemma float_or_None_null: "(float_or_None c = Inr VNone) = (c = [] \<or> c = ''-'')"
  by (auto simp: float_or_None_def ebind_def split: sum.splits)

lemma v1_ratio_value_not_null: "v1_ratio_value val \<noteq> VNone"
  by (simp add: v1_ratio_value_def split: sum.splits)

lemma in_strip_with: "c \<in> set x \<Longrightarrow> \<not> sp c \<Longrightarrow> c \<in> set (strip_with sp x)"
proof -
  assume c: "c \<in> set x" and n: "\<not> sp c"
  have a: "c \<in> set ys \<Longrightarrow> c \<in> set (dropWhile sp ys)" for ys
    using n by (induction ys) auto
  from a [OF c] have "c \<in> set (rev (dropWhile sp x))" by simp
  from a [OF this] show ?thesis by (simp add: strip_with_def)
qed

lemma percent_not_digit: "\<not> is_digit CHR ''%''"
  by (simp add: is_digit_def)

lemma in_split_sign:
  "CHR ''%'' \<in> set s \<Longrightarrow> CHR ''%'' \<in> set (snd (split_sign s))"
  by (auto simp: split_sign_def split: list.splits)

lemma parse_exponent_percent: "CHR ''%'' \<in> set s \<Longrightarrow> parse_exponent s = None"
proof (cases s)
  case Nil
  assume "CHR ''%'' \<in> set s" with Nil show ?thesis by simp
next
  case (Cons c r)
  assume p: "CHR ''%'' \<in> set s"
  show ?thesis
  proof (cases "c = CHR ''e'' \<or> c = CHR ''E''")
    case False
    with Cons show ?thesis by (simp add: parse_exponent_def)
  next
    case True
    with p Cons have "CHR ''%'' \<in> set r" by auto
    from in_split_sign [OF this] have "\<not> list_all is_digit (snd (split_sign r))"
      using percent_not_digit by (auto simp: list_all_iff)
    with True Cons show ?thesis
      by (auto simp: parse_exponent_def split: prod.splits)
  qed
qed

lemma in_dropWhile_digit: "CHR ''%'' \<in> set s \<Longrightarrow> CHR ''%'' \<in> set (dropWhile is_digit s)"
  using percent_not_digit by (induction s) auto

lemma parse_decimal_percent: "CHR ''%'' \<in> set s \<Longrightarrow> parse_decimal s = None"
proof -
  assume p: "CHR ''%'' \<in> set s"
  let ?r1 = "dropWhile is_digit s"
  let ?r2 = "case ?r1 of [] \<Rightarrow> [] | c # r \<Rightarrow> if c = CHR ''.'' then dropWhile is_digit r else ?r1"
  from in_dropWhile_digit [OF p] have r1: "CHR ''%'' \<in> set ?r1" .
  have "CHR ''%'' \<in> set ?r2"
  proof (cases ?r1)
    case Nil
    with r1 show ?thesis by simp
  next
    case (Cons c r)
    show ?thesis
    proof (cases "c = CHR ''.''")
      case True
      with r1 Cons have "CHR ''%'' \<in> set r" by auto
      from in_dropWhile_digit [OF this] True Cons show ?thesis by simp
    next
      case False
      with r1 Cons show ?thesis by simp
    qed
  qed
  from parse_exponent_percent [OF this] show ?thesis
    by (simp add: parse_decimal_def Let_def)
qed

lemma lower_char_percent: "lower_char CHR ''%'' = CHR ''%''"
  by (simp add: lower_char_def)

lemma py_float_percent: "CHR ''%'' \<in> set x \<Longrightarrow> py_float x = Inl (float_error x)"
proof -
  assume p: "CHR ''%'' \<in> set x"
  let ?s = "strip_with is_space x"
  have "CHR ''%'' \<in> set ?s"
    by (rule in_strip_with [OF p]) (simp add: is_space_def)
  then have "CHR ''%'' \<in> set (remove_char CHR ''_'' ?s)"
    by (simp add: remove_char_def)
  from in_split_sign [OF this] obtain neg r where
    sr: "split_sign (remove_char CHR ''_'' ?s) = (neg, r)" and r: "CHR ''%'' \<in> set r"
    by (cases "split_sign (remove_char CHR ''_'' ?s)") auto
  from r have "lower_char CHR ''%'' \<in> lower_char ` set r" by (rule imageI)
  then have l: "CHR ''%'' \<in> set (lower r)"
    by (simp add: lower_def lower_char_percent)
  have n1: "lower r \<noteq> ''inf''"
  proof
    assume "lower r = ''inf''"
    with l show False by simp
  qed
  have n2: "lower r \<noteq> ''infinity''"
  proof
    assume "lower r = ''infinity''"
    with l show False by simp
  qed
  have n3: "lower r \<noteq> ''nan''"
  proof
    assume "lower r = ''nan''"
    with l show False by simp
  qed
  have "underscores_ok (CHR 0x00) ?s \<or> \<not> underscores_ok (CHR 0x00) ?s" by blast
  show ?thesis
    unfolding py_float_def Let_def sr using n1 n2 n3 parse_decimal_percent [OF r]
    by simp
qed


lemma float_or_None_percent:
  "CHR ''%'' \<in> set c \<Longrightarrow> float_or_None c = Inl (float_error c)"
  by (auto simp: float_or_None_def ebind_def py_float_percent)

lemma py_float_example: "py_float ''1234.50'' = Inr (Finite (2469 / 2))"
  by (simp add: number_eval)

lemma py_int_example: "py_int ''2023'' = Inr 2023"
  by (simp add: number_eval)

lemma percent_row_dropped:
  "highlights_rows [[''2023'', ''1,234.50%'', ''1'', ''1'', ''1'', ''1'', ''1'', ''1'', ''1'']] = Inr []"
proof -
  have h: "highlights_item [''2023'', ''1,234.50%'', ''1'', ''1'', ''1'', ''1'', ''1'', ''1'', ''1'']
      = Inl (float_error ''1234.50%'')"
    by (simp add: highlights_item_def remove_char_def int_or_None_def py_int_example ebind_def
        float_or_None_percent)
  show ?thesis by (simp add: h float_error_def)
qed

lemma v1_ratio_examples:
  "v1_ratio_value ''1,234.50%'' = VFloat (Finite (2469 / 2))"
  "v1_ratio_value ''-'' = VStr ''-''"
  "v1_ratio_value [] = VStr []"
  by (simp_all add: v1_ratio_value_def number_eval)

text \<open>
  C6 (as stated): every field coercion strips thousands separators and percent signs and maps
  the placeholders \<open>-\<close> and the empty string to null. It fails in both extractors. In
  \<^verbatim>\<open>fetch_company_highlights\<close> only the separators are removed, so \<^verbatim>\<open>float("1234.50%")\<close> raises
  and the row is dropped; in \<^verbatim>\<open>fetch_factsheet\<close> of main.py a placeholder stays as it is.
\<close>

theorem numeric_coercion_counterexample:
  "highlights_rows [[''2023'', ''1,234.50%'', ''1'', ''1'', ''1'', ''1'', ''1'', ''1'', ''1'']] = Inr []
   \<and> v1_ratio_value ''-'' = VStr ''-'' \<and> v1_ratio_value [] = VStr []"
  by (intro conjI) (fact percent_row_dropped v1_ratio_examples)+

text \<open>
  C6 (amended): the coercion differs by extractor. In \<^verbatim>\<open>fetch_company_highlights\<close> (main2.py)
  the thousands separators are removed and a float column is null exactly for the empty
  string and \<open>-\<close>; \<open>1,234.50\<close> parses to 1234.50; a percent sign is not removed and makes
  \<^verbatim>\<open>float\<close> raise \<^verbatim>\<open>ValueError\<close>, so the row with \<open>1,234.50%\<close> is dropped. In \<^verbatim>\<open>fetch_factsheet\<close>
  (main.py) percent signs and separators are both removed, \<open>1,234.50%\<close> parses to 1234.50,
  and a value is never null: text that does not parse, \<open>-\<close> and the empty string included,
  is kept as the string.
\<close>

theorem numeric_coercion_by_extractor:
  "(float_or_None c = Inr VNone) = (c = [] \<or> c = ''-'')
   \<and> (CHR ''%'' \<in> set c \<longrightarrow> float_or_None c = Inl (float_error c))
   \<and> float_or_None (remove_char CHR '','' ''1,234.50'') = Inr (VFloat (Finite (2469 / 2)))
   \<and> highlights_rows [[''2023'', ''1,234.50%'', ''1'', ''1'', ''1'', ''1'', ''1'', ''1'', ''1'']] = Inr []
   \<and> v1_ratio_value val \<noteq> VNone
   \<and> v1_ratio_value ''1,234.50%'' = VFloat (Finite (2469 / 2))
   \<and> v1_ratio_value ''-'' = VStr ''-''
   \<and> v1_ratio_value [] = VStr []"
proof -
  have "float_or_None (remove_char CHR '','' ''1,234.50'') = Inr (VFloat (Finite (2469 / 2)))"
    by (simp add: remove_char_def float_or_None_def py_float_example ebind_def)
  then show ?thesis
    using float_or_None_null [of c] float_or_None_percent [of c] percent_row_dropped
      v1_ratio_value_not_null [of val] v1_ratio_examples
    by blast
qed

theorem numeric_coercion_by_extractor_witness:
  "CHR ''%'' \<in> set ''1234.50%'' \<and> float_or_None ''1234.50%'' = Inl (float_error ''1234.50%'')
   \<and> float_or_None ''-'' = Inr VNone \<and> v1_ratio_value ''-'' \<noteq> VNone"
  using numeric_coercion_by_extractor [of "''1234.50%''" "''-''"]
    numeric_coercion_by_extractor [of "''-''" "''-''"]
  by simp

section \<open>Properties of the extractors\<close>

lemma never_raises_return: "never_raises (io_return a)"
  by (simp add: never_raises_def io_return_def)

lemma never_raises_bind:
  "never_raises m \<Longrightarrow> (\<And>a. never_raises (f a)) \<Longrightarrow> never_raises (io_bind m f)"
  unfolding never_raises_def io_bind_def
proof
  fix w
  assume m: "\<forall>w. \<exists>a evs w1. m w = (Inr a, evs, w1)"
    and f: "\<And>a. \<forall>w. \<exists>b evs w1. f a w = (Inr b, evs, w1)"
  from m obtain a evs w1 where 1: "m w = (Inr a, evs, w1)" by blast
  from f obtain b evs2 w2 where 2: "f a w1 = (Inr b, evs2, w2)" by blast
  from 1 2 show "\<exists>b evs' w'. (case m w of
        (Inl e, evs, w1) \<Rightarrow> (Inl e, evs, w1)
      | (Inr a, evs, w1) \<Rightarrow> (case f a w1 of (r, evs2, w2) \<Rightarrow> (r, evs @ evs2, w2))) = (Inr b, evs', w')"
    by simp
qed

lemma never_raises_try:
  "never_raises (io_try m is_Exception (\<lambda>e. io_return (h e)))"
  unfolding never_raises_def
proof
  fix w
  obtain r evs w1 where m: "m w = (r, evs, w1)" by (cases "m w") auto
  show "\<exists>a evs w1. io_try m is_Exception (\<lambda>e. io_return (h e)) w = (Inr a, evs, w1)"
    by (cases r) (simp_all add: io_try_def m is_Exception_def io_return_def)
qed

lemma never_raises_sleep: "0 \<le> d \<Longrightarrow> never_raises (time_sleep d)"
  by (simp add: never_raises_def time_sleep_def io_call_def)

lemma never_raises_rate_limit:
  "0 \<le> d \<Longrightarrow> never_raises m \<Longrightarrow> never_raises (rate_limit d m)"
  by (simp add: rate_limit_def never_raises_bind never_raises_sleep)

lemma fetch_company_highlights_total: "never_raises (fetch_company_highlights env symbol)"
  unfolding fetch_company_highlights_def by (rule never_raises_rate_limit [OF _ never_raises_try]) simp

lemma fetch_rights_benefits_total: "never_raises (fetch_rights_benefits env symbol)"
  unfolding fetch_rights_benefits_def by (rule never_raises_rate_limit [OF _ never_raises_try]) simp

lemma fetch_financial_statements_total: "never_raises (fetch_financial_statements env symbol)"
  unfolding fetch_financial_statements_def by (rule never_raises_rate_limit [OF _ never_raises_try]) simp

lemma fetch_historical_prices_total: "never_raises (fetch_historical_prices env symbol months)"
  unfolding fetch_historical_prices_def by (rule never_raises_rate_limit [OF _ never_raises_try]) simp

lemma quit_quietly_total: "never_raises (quit_quietly env driver)"
  unfolding quit_quietly_def by (rule never_raises_try)

lemma fetch_factsheet_selenium_total: "never_raises (fetch_factsheet_selenium env symbol)"
  unfolding fetch_factsheet_selenium_def
proof (rule never_raises_rate_limit [OF _ never_raises_bind [OF never_raises_try]])
  show "(0::int) \<le> 2" by simp
next
  fix got :: "exn + nat option"
  show "never_raises (case got of
          Inl e \<Rightarrow> io_return (error_record symbol (str_exn e))
        | Inr None \<Rightarrow> io_return (error_record symbol ''Failed to create driver'')
        | Inr (Some driver) \<Rightarrow>
            io_bind
              (io_try (factsheet_body env symbol driver) is_Exception
                 (\<lambda>e. io_return (error_record symbol (str_exn e)))) (\<lambda>data.
            io_bind (quit_quietly env driver) (\<lambda>_.
            io_return data)))"
    by (auto split: sum.splits option.splits
        intro!: never_raises_return never_raises_bind never_raises_try quit_quietly_total)
qed


lemmas io_defs = rate_limit_def time_sleep_def io_bind_def io_try_def io_call_def io_return_def
  io_raise_def io_pure_def result_def is_Exception_def

lemma highlights_failure:
  "result (safe_request env (highlights_url symbol) [] 3 w) = Inr None \<Longrightarrow>
   result (fetch_company_highlights env symbol w) =
     Inr (error_record symbol ''Failed to fetch highlights page'')"
  by (cases "safe_request env (highlights_url symbol) [] 3 w")
     (simp add: fetch_company_highlights_def io_defs)

lemma rights_failure:
  "result (safe_request env (rights_url symbol) [] 3 w) = Inr None \<Longrightarrow>
   result (fetch_rights_benefits env symbol w) =
     Inr (rights_error symbol ''Failed to fetch rights & benefits'')"
  by (cases "safe_request env (rights_url symbol) [] 3 w")
     (simp add: fetch_rights_benefits_def io_defs)

lemma statements_failure:
  "result (safe_request env (statements_url symbol) [] 3 w) = Inr None \<Longrightarrow>
   result (fetch_financial_statements env symbol w) =
     Inr (statements_error symbol ''Failed to fetch financial statements page'')"
  by (cases "safe_request env (statements_url symbol) [] 3 w")
     (simp add: fetch_financial_statements_def io_defs)

lemma prices_failure:
  "result (safe_request env price_chart_url
      (price_params env symbol months (fst (datetime_today env w))) 3
      (snd (datetime_today env w))) = Inr None \<Longrightarrow>
   result (fetch_historical_prices env symbol months w) =
     Inr (prices_error symbol ''Failed to fetch historical prices'')"
  by (cases "datetime_today env w";
      cases "safe_request env price_chart_url
      (price_params env symbol months (fst (datetime_today env w))) 3
      (snd (datetime_today env w))")
     (simp add: fetch_historical_prices_def io_defs)

lemma factsheet_failure:
  "result (get_safe_driver env 3 w) = Inr None \<Longrightarrow>
   result (fetch_factsheet_selenium env symbol w) =
     Inr (error_record symbol ''Failed to create driver'')"
  by (cases "get_safe_driver env 3 w")
     (simp add: fetch_factsheet_selenium_def io_defs)


lemma offline_get_safe_driver:
  "get_safe_driver (offline get) 3 w =
     (Inr None, [ChromeStart, Sleep 2, ChromeStart, Sleep 2, ChromeStart], w)"
  by (simp add: get_safe_driver_def upt_rec start_chrome_def offline_def io_defs)

text \<open>
  C1 (as stated): every extractor returns a record and never raises past its own boundary.
  It fails for \<^verbatim>\<open>fetch_factsheet\<close> of main.py, which has no \<^verbatim>\<open>try\<close>: when the request fails
  with a connection error, the exception leaves the extractor.
\<close>

theorem v1_fetch_factsheet_raises_counterexample:
  "v1_fetch_factsheet (always_raises (Exn ConnectionError ''refused'')) ''ABC'' () =
     (Inl (Exn ConnectionError ''refused''), [HttpGet (factsheet_url ''ABC'')], ())"
  by (simp add: v1_fetch_factsheet_def always_raises_def offline_def io_defs)

text \<open>
  C1 (amended): each of the five extractors of main2.py returns a record from every state of
  the world and never raises. When its transport fails (\<^verbatim>\<open>safe_request\<close> returns \<^verbatim>\<open>None\<close>, or
  no browser could be started) the record carries an \<open>error\<close> entry and no data: the factsheet
  and highlights records hold only the symbol and the error, the other three an empty list.
\<close>

theorem extractors_return_records:
  "never_raises (fetch_factsheet_selenium env symbol)
   \<and> never_raises (fetch_company_highlights env symbol)
   \<and> never_raises (fetch_rights_benefits env symbol)
   \<and> never_raises (fetch_financial_statements env symbol)
   \<and> never_raises (fetch_historical_prices env symbol months)
   \<and> (result (get_safe_driver env 3 w) = Inr None \<longrightarrow>
        result (fetch_factsheet_selenium env symbol w) =
          Inr (VDict [(''symbol'', VStr symbol), (''error'', VStr ''Failed to create driver'')]))
   \<and> (result (safe_request env (highlights_url symbol) [] 3 w) = Inr None \<longrightarrow>
        result (fetch_company_highlights env symbol w) =
          Inr (VDict [(''symbol'', VStr symbol),
                      (''error'', VStr ''Failed to fetch highlights page'')]))
   \<and> (result (safe_request env (rights_url symbol) [] 3 w) = Inr None \<longrightarrow>
        result (fetch_rights_benefits env symbol w) =
          Inr (VDict [(''symbol'', VStr symbol),
                      (''error'', VStr ''Failed to fetch rights & benefits''),
                      (''dividends'', VList [])]))
   \<and> (result (safe_request env (statements_url symbol) [] 3 w) = Inr None \<longrightarrow>
        result (fetch_financial_statements env symbol w) =
          Inr (VDict [(''symbol'', VStr symbol),
                      (''error'', VStr ''Failed to fetch financial statements page''),
                      (''financial_statements'', VList [])]))
   \<and> (result (safe_request env price_chart_url
          (price_params env symbol months (fst (datetime_today env w))) 3
          (snd (datetime_today env w))) = Inr None \<longrightarrow>
        result (fetch_historical_prices env symbol months w) =
          Inr (VDict [(''symbol'', VStr symbol),
                      (''error'', VStr ''Failed to fetch historical prices''),
                      (''historical_prices'', VList [])]))"
  using fetch_factsheet_selenium_total [of env symbol]
    fetch_company_highlights_total [of env symbol]
    fetch_rights_benefits_total [of env symbol]
    fetch_financial_statements_total [of env symbol]
    fetch_historical_prices_total [of env symbol months]
    factsheet_failure [of env w symbol] highlights_failure [of env symbol w]
    rights_failure [of env symbol w] statements_failure [of env symbol w]
    prices_failure [of env symbol months w]
  unfolding error_record_def rights_error_def statements_error_def prices_error_def
  by blast

theorem extractors_return_records_witness:
  "result (get_safe_driver (always_raises (Exn ConnectionError ''refused'')) 3 ()) = Inr None
   \<and> result (fetch_factsheet_selenium (always_raises (Exn ConnectionError ''refused'')) ''ABC'' ())
        = Inr (VDict [(''symbol'', VStr ''ABC''), (''error'', VStr ''Failed to create driver'')])
   \<and> result (safe_request (always_raises (Exn ConnectionError ''refused''))
         (highlights_url ''ABC'') [] 3 ()) = Inr None
   \<and> result (fetch_company_highlights (always_raises (Exn ConnectionError ''refused'')) ''ABC'' ())
        = Inr (VDict [(''symbol'', VStr ''ABC''),
                      (''error'', VStr ''Failed to fetch highlights page'')])
   \<and> result (fetch_rights_benefits (always_raises (Exn ConnectionError ''refused'')) ''ABC'' ())
        = Inr (VDict [(''symbol'', VStr ''ABC''),
                      (''error'', VStr ''Failed to fetch rights & benefits''),
                      (''dividends'', VList [])])
   \<and> result (fetch_financial_statements (always_raises (Exn ConnectionError ''refused'')) ''ABC'' ())
        = Inr (VDict [(''symbol'', VStr ''ABC''),
                      (''error'', VStr ''Failed to fetch financial statements page''),
                      (''financial_statements'', VList [])])
   \<and> result (fetch_historical_prices (always_raises (Exn ConnectionError ''refused'')) ''ABC'' 60 ())
        = Inr (VDict [(''symbol'', VStr ''ABC''),
                      (''error'', VStr ''Failed to fetch historical prices''),
                      (''historical_prices'', VList [])])"
proof -
  let ?E = "always_raises (Exn ConnectionError ''refused'')"
  have d: "result (get_safe_driver ?E 3 ()) = Inr None"
    by (simp add: always_raises_def offline_get_safe_driver result_def)
  have r: "result (safe_request ?E url ps 3 w) = Inr None" for url ps w
    by (simp add: always_raises_safe_request_3 result_def)
  from d r extractors_return_records [of ?E "''ABC''" 60 "()"] show ?thesis
    by blast
qed

section \<open>Properties of the rendered-page fetch\<close>

lemma tuple_simps [simp]:
  "result (r, evs, w) = r" "events (r, evs, w) = evs" "world (r, evs, w) = w"
  by (simp_all add: result_def events_def world_def)

lemma io_bind_unfold:
  "io_bind m f w =
     (case result (m w) of
        Inl e \<Rightarrow> (Inl e, events (m w), world (m w))
      | Inr a \<Rightarrow> (result (f a (world (m w))), events (m w) @ events (f a (world (m w))),
                  world (f a (world (m w)))))"
  by (auto simp: io_bind_def result_def events_def world_def split: prod.splits sum.splits)

lemma io_try_unfold:
  "io_try m c h w =
     (case result (m w) of
        Inl e \<Rightarrow> if c e then (result (h e (world (m w))), events (m w) @ events (h e (world (m w))),
                                world (h e (world (m w))))
                 else (Inl e, events (m w), world (m w))
      | Inr a \<Rightarrow> (Inr a, events (m w), world (m w)))"
  by (auto simp: io_try_def result_def events_def world_def split: prod.splits sum.splits)

lemma events_bind:
  "events (io_bind m f w) =
     events (m w) @ (case result (m w) of Inl e \<Rightarrow> [] | Inr a \<Rightarrow> events (f a (world (m w))))"
  by (simp add: io_bind_unfold split: sum.splits)

lemma events_try:
  "events (io_try m c h w) =
     events (m w) @ (case result (m w) of
                       Inl e \<Rightarrow> if c e then events (h e (world (m w))) else []
                     | Inr a \<Rightarrow> [])"
  by (simp add: io_try_unfold split: sum.splits)

lemma result_bind:
  "result (io_bind m f w) =
     (case result (m w) of Inl e \<Rightarrow> Inl e | Inr a \<Rightarrow> result (f a (world (m w))))"
  by (simp add: io_bind_unfold split: sum.splits)

lemma result_try:
  "result (io_try m c h w) =
     (case result (m w) of
        Inl e \<Rightarrow> if c e then result (h e (world (m w))) else Inl e
      | Inr a \<Rightarrow> Inr a)"
  by (simp add: io_try_unfold split: sum.splits)

lemma world_bind:
  "world (io_bind m f w) =
     (case result (m w) of Inl e \<Rightarrow> world (m w) | Inr a \<Rightarrow> world (f a (world (m w))))"
  by (simp add: io_bind_unfold split: sum.splits)

lemma world_try:
  "world (io_try m c h w) =
     (case result (m w) of
        Inl e \<Rightarrow> if c e then world (h e (world (m w))) else world (m w)
      | Inr a \<Rightarrow> world (m w))"
  by (simp add: io_try_unfold split: sum.splits)

lemma sleep_simps [simp]:
  "0 \<le> d \<Longrightarrow> result (time_sleep d w) = Inr ()"
  "0 \<le> d \<Longrightarrow> events (time_sleep d w) = [Sleep d]"
  "world (time_sleep d w) = w"
  by (simp_all add: time_sleep_def io_call_def io_raise_def)

lemma return_simps [simp]:
  "result (io_return a w) = Inr a" "world (io_return a w) = w"
  "result (io_raise e w) = Inl e" "world (io_raise e w) = w"
  "result (io_pure r w) = r" "world (io_pure r w) = w"
  by (simp_all add: io_return_def io_raise_def io_pure_def)

lemma call_simps [simp]:
  "result (io_call evs f w) = fst (f w)" "world (io_call evs f w) = snd (f w)"
  by (simp_all add: io_call_def split: prod.splits)

lemma events_simps [simp]:
  "events (io_return a w) = []"
  "events (io_raise e w) = []"
  "events (io_pure r w) = []"
  "events (io_call evs f w) = evs"
  by (simp_all add: events_def io_return_def io_raise_def io_pure_def io_call_def split: prod.splits)

lemma events_sleep: "events (time_sleep d w) = (if d < 0 then [] else [Sleep d])"
  by (simp add: time_sleep_def)

lemma reloads_simps [simp]:
  "reloads [] = 0"
  "reloads (xs @ ys) = reloads xs + reloads ys"
  "reloads (e # xs) = (if is_refresh e then 1 else 0) + reloads xs"
  by (simp_all add: reloads_def)

lemma chrome_starts_simps [simp]:
  "chrome_starts [] = 0"
  "chrome_starts (xs @ ys) = chrome_starts xs + chrome_starts ys"
  "chrome_starts (e # xs) = (if e = ChromeStart then 1 else 0) + chrome_starts xs"
  by (simp_all add: chrome_starts_def)

lemma created_append [simp]: "created (xs @ ys) = created xs @ created ys"
  by (induction xs rule: created.induct) auto

lemma quitted_append [simp]: "quitted (xs @ ys) = quitted xs @ quitted ys"
  by (induction xs rule: quitted.induct) auto

lemma events_page_incomplete: "events (page_incomplete env d w) = []"
  by (simp add: page_incomplete_def events_bind split: sum.splits)

lemma events_debug_dump:
  "reloads (events (debug_dump env symbol d w)) = 0"
  "chrome_starts (events (debug_dump env symbol d w)) = 0"
  "created (events (debug_dump env symbol d w)) = []"
  "quitted (events (debug_dump env symbol d w)) = []"
  by (simp_all add: debug_dump_def events_bind split: sum.splits)

lemma events_load_page:
  "reloads (events (load_page env d url w)) \<le> 1"
  "chrome_starts (events (load_page env d url w)) = 0"
  "created (events (load_page env d url w)) = []"
  "quitted (events (load_page env d url w)) = []"
  by (simp_all add: load_page_def events_bind events_page_incomplete events_sleep
      split: sum.splits)

lemma events_factsheet_body:
  "reloads (events (factsheet_body env symbol d w)) =
     reloads (events (load_page env d (factsheet_url symbol) w))"
  "chrome_starts (events (factsheet_body env symbol d w)) = 0"
  "created (events (factsheet_body env symbol d w)) = []"
  "quitted (events (factsheet_body env symbol d w)) = []"
  by (simp_all add: factsheet_body_def events_bind events_load_page events_debug_dump
      split: sum.splits)


lemma start_chrome_cases:
  "(\<exists>e w1. start_chrome env w = (Inl e, [ChromeStart], w1)) \<or>
   (\<exists>d w1. start_chrome env w = (Inr d, [ChromeStart, DriverCreated d], w1))"
  by (cases "webdriver_Chrome env w"; cases "fst (webdriver_Chrome env w)")
     (auto simp: start_chrome_def io_bind_def io_call_def io_return_def)

lemma get_safe_driver_loop_events:
  "quitted (events (get_safe_driver_loop env n xs w)) = []
   \<and> reloads (events (get_safe_driver_loop env n xs w)) = 0
   \<and> chrome_starts (events (get_safe_driver_loop env n xs w)) \<le> length xs
   \<and> created (events (get_safe_driver_loop env n xs w)) =
       (case result (get_safe_driver_loop env n xs w) of
          Inr (Some d) \<Rightarrow> [d] | Inr None \<Rightarrow> [] | Inl e \<Rightarrow> [])"
proof (induction xs arbitrary: w)
  case Nil
  show ?case by (simp add: io_return_def)
next
  case (Cons attempt rest)
  from start_chrome_cases [of env w] show ?case
  proof
    assume "\<exists>e w1. start_chrome env w = (Inl e, [ChromeStart], w1)"
    then obtain e w1 where s: "start_chrome env w = (Inl e, [ChromeStart], w1)" by blast
    show ?thesis
    proof (cases "is_WebDriverException e \<and> attempt < n - 1")
      case True
      with s Cons.IH [of w1] show ?thesis
        by (simp add: events_try events_bind result_try result_bind world_bind)
    next
      case False
      with s show ?thesis
        by (auto simp: events_try events_bind result_try result_bind)
    qed
  next
    assume "\<exists>d w1. start_chrome env w = (Inr d, [ChromeStart, DriverCreated d], w1)"
    then obtain d w1 where s: "start_chrome env w = (Inr d, [ChromeStart, DriverCreated d], w1)"
      by blast
    then show ?thesis
      by (simp add: events_try events_bind result_try result_bind)
  qed
qed

lemma get_safe_driver_events:
  "quitted (events (get_safe_driver env 3 w)) = []"
  "reloads (events (get_safe_driver env 3 w)) = 0"
  "chrome_starts (events (get_safe_driver env 3 w)) \<le> 3"
  "created (events (get_safe_driver env 3 w)) =
       (case result (get_safe_driver env 3 w) of
          Inr (Some d) \<Rightarrow> [d] | Inr None \<Rightarrow> [] | Inl e \<Rightarrow> [])"
  using get_safe_driver_loop_events [of env 3 "[0..<3]" w]
  by (simp_all add: get_safe_driver_def)


lemma events_quit_quietly: "events (quit_quietly env d w) = [DriverQuit d]"
  by (simp add: quit_quietly_def events_try split: sum.splits)

lemma fetch_factsheet_selenium_events:
  "events (fetch_factsheet_selenium env symbol w) =
     Sleep 2 # events (get_safe_driver env 3 w) @
       (case result (get_safe_driver env 3 w) of
          Inr (Some d) \<Rightarrow>
            events (factsheet_body env symbol d (world (get_safe_driver env 3 w))) @ [DriverQuit d]
        | Inr None \<Rightarrow> []
        | Inl e \<Rightarrow> [])"
  by (simp add: fetch_factsheet_selenium_def rate_limit_def events_bind events_try result_bind
      result_try world_bind world_try is_Exception_def events_quit_quietly
      split: sum.splits option.splits)

lemma fetch_factsheet_selenium_releases:
  "created (events (fetch_factsheet_selenium env symbol w)) =
   quitted (events (fetch_factsheet_selenium env symbol w))"
  by (simp add: fetch_factsheet_selenium_events get_safe_driver_events events_factsheet_body
      split: sum.splits option.splits)

lemma fetch_factsheet_selenium_reloads:
  "reloads (events (fetch_factsheet_selenium env symbol w)) \<le> 1"
proof (cases "result (get_safe_driver env 3 w)")
  case (Inl e)
  then show ?thesis
    by (simp add: fetch_factsheet_selenium_events get_safe_driver_events)
next
  case (Inr got)
  show ?thesis
  proof (cases got)
    case None
    with Inr show ?thesis
      by (simp add: fetch_factsheet_selenium_events get_safe_driver_events)
  next
    case (Some d)
    with Inr events_load_page(1) [of env d "factsheet_url symbol" "world (get_safe_driver env 3 w)"]
    show ?thesis
      by (simp add: fetch_factsheet_selenium_events get_safe_driver_events events_factsheet_body)
  qed
qed

lemma fetch_factsheet_selenium_chrome_starts:
  "chrome_starts (events (fetch_factsheet_selenium env symbol w)) =
   chrome_starts (events (get_safe_driver env 3 w))"
  by (simp add: fetch_factsheet_selenium_events get_safe_driver_events events_factsheet_body
      split: sum.splits option.splits)

lemma page_incomplete_stable:
  "driver_page_source env d w = (Inr source, w) \<Longrightarrow>
   page_incomplete env d w = (Inr (contains source thai_not_found \<or> py_len source < 1000), [], w)"
  by (simp add: page_incomplete_def io_bind_def io_call_def io_return_def)

lemma load_page_reloads:
  "driver_get env d url w = (Inr (), w1) \<Longrightarrow> result (page_incomplete env d w1) = Inr b \<Longrightarrow>
   reloads (events (load_page env d url w)) = (if b then 1 else 0)"
  by (simp add: load_page_def events_bind result_bind world_bind events_page_incomplete
      split: sum.splits)

lemma load_page_rewaits:
  "driver_get env d url w = (Inr (), w1) \<Longrightarrow> page_incomplete env d w1 = (Inr True, [], w2) \<Longrightarrow>
   driver_refresh env d w2 = (Inr (), w3) \<Longrightarrow>
   load_page env d url w =
     (Inr (), [DriverGet d url, Sleep 5, DriverRefresh d, Sleep 5], w3)"
  by (simp add: load_page_def io_bind_def io_call_def time_sleep_def)

lemma load_page_no_reload:
  "driver_get env d url w = (Inr (), w1) \<Longrightarrow> page_incomplete env d w1 = (Inr False, [], w2) \<Longrightarrow>
   load_page env d url w = (Inr (), [DriverGet d url, Sleep 5], w2)"
  by (simp add: load_page_def io_bind_def io_call_def time_sleep_def io_return_def)


lemma fetch_reloads_when_incomplete:
  "result (get_safe_driver env 3 w) = Inr (Some d) \<Longrightarrow>
   driver_get env d (factsheet_url symbol) (world (get_safe_driver env 3 w)) = (Inr (), w1) \<Longrightarrow>
   result (page_incomplete env d w1) = Inr b \<Longrightarrow>
   reloads (events (fetch_factsheet_selenium env symbol w)) = (if b then 1 else 0)"
  using load_page_reloads [of env d "factsheet_url symbol" "world (get_safe_driver env 3 w)" w1 b]
  by (simp add: fetch_factsheet_selenium_events get_safe_driver_events events_factsheet_body)

lemma load_page_stable:
  "driver_get env d url w0 = (Inr (), w1) \<Longrightarrow> driver_page_source env d w1 = (Inr source, w1) \<Longrightarrow>
   driver_refresh env d w1 = (Inr (), w2) \<Longrightarrow>
   load_page env d url w0 =
     (if contains source thai_not_found \<or> py_len source < 1000
      then (Inr (), [DriverGet d url, Sleep 5, DriverRefresh d, Sleep 5], w2)
      else (Inr (), [DriverGet d url, Sleep 5], w1))"
  using page_incomplete_stable [of env d w1 source]
    load_page_rewaits [of env d url w0 w1 w1 w2] load_page_no_reload [of env d url w0 w1 w1]
  by (cases "contains source thai_not_found \<or> py_len source < 1000") simp_all

text \<open>
  C9: in every rendered-page fetch the page is reloaded at most once. After the load and the
  five-second wait the page is reloaded, and waited for again, exactly when the check of
  line 102 finds it incomplete (the marker is present, or the page has fewer than 1000
  characters), and not otherwise. The reload is not a retry: the browser is started as often
  as \<^verbatim>\<open>get_safe_driver\<close> alone starts it, at most three times.
\<close>

theorem reload_at_most_once:
  "reloads (events (fetch_factsheet_selenium env symbol w)) \<le> 1
   \<and> chrome_starts (events (fetch_factsheet_selenium env symbol w)) =
       chrome_starts (events (get_safe_driver env 3 w))
   \<and> chrome_starts (events (fetch_factsheet_selenium env symbol w)) \<le> 3
   \<and> (result (get_safe_driver env 3 w) = Inr (Some d)
        \<and> driver_get env d (factsheet_url symbol) (world (get_safe_driver env 3 w)) = (Inr (), w1)
        \<and> result (page_incomplete env d w1) = Inr b \<longrightarrow>
        reloads (events (fetch_factsheet_selenium env symbol w)) = (if b then 1 else 0))
   \<and> (driver_get env d url w0 = (Inr (), w1)
        \<and> driver_page_source env d w1 = (Inr source, w1)
        \<and> driver_refresh env d w1 = (Inr (), w2) \<longrightarrow>
        load_page env d url w0 =
          (if contains source thai_not_found \<or> py_len source < 1000
           then (Inr (), [DriverGet d url, Sleep 5, DriverRefresh d, Sleep 5], w2)
           else (Inr (), [DriverGet d url, Sleep 5], w1)))"
  using fetch_factsheet_selenium_reloads [of env symbol w]
    fetch_factsheet_selenium_chrome_starts [of env symbol w]
    get_safe_driver_events(3) [of env w]
    fetch_reloads_when_incomplete [of env w d symbol w1 b]
    load_page_stable [of env d url w0 w1 source w2]
  by simp

lemma empty_page_driver:
  "get_safe_driver empty_page 3 () = (Inr (Some 0), [ChromeStart, DriverCreated 0], ())"
  by (simp add: get_safe_driver_def upt_rec start_chrome_def empty_page_def offline_def
      io_try_def io_bind_def io_call_def io_return_def)

theorem reload_at_most_once_witness:
  "result (get_safe_driver empty_page 3 ()) = Inr (Some 0)
   \<and> driver_get empty_page 0 (factsheet_url ''ABC'') (world (get_safe_driver empty_page 3 ())) =
        (Inr (), ())
   \<and> result (page_incomplete empty_page 0 ()) = Inr True
   \<and> reloads (events (fetch_factsheet_selenium empty_page ''ABC'' ())) = 1
   \<and> driver_page_source empty_page 0 () = (Inr [], ())
   \<and> driver_refresh empty_page 0 () = (Inr (), ())
   \<and> load_page empty_page 0 (factsheet_url ''ABC'') () =
        (Inr (), [DriverGet 0 (factsheet_url ''ABC''), Sleep 5, DriverRefresh 0, Sleep 5], ())"
proof -
  have g: "driver_get empty_page 0 url () = (Inr (), ())" for url
    by (simp add: empty_page_def offline_def)
  have p: "driver_page_source empty_page 0 () = (Inr [], ())"
    by (simp add: empty_page_def offline_def)
  have r: "driver_refresh empty_page 0 () = (Inr (), ())"
    by (simp add: empty_page_def offline_def)
  have i: "result (page_incomplete empty_page 0 ()) = Inr True"
    using page_incomplete_stable [OF p] by (simp add: py_len_def)
  from g p r i empty_page_driver
    reload_at_most_once [of empty_page "''ABC''" "()" 0 "()" True "factsheet_url ''ABC''" "()" "[]" "()"]
  show ?thesis by (simp add: py_len_def)
qed

lemma page_load_fails_driver:
  "get_safe_driver page_load_fails 3 () = (Inr (Some 0), [ChromeStart, DriverCreated 0], ())"
  by (simp add: get_safe_driver_def upt_rec start_chrome_def page_load_fails_def offline_def
      io_try_def io_bind_def io_call_def io_return_def)

text \<open>
  C8: every rendered-page fetch that has started a browser quits it on every exit path.
  \<^verbatim>\<open>fetch_factsheet_selenium\<close> of main2.py does (lemma \<open>fetch_factsheet_selenium_releases\<close>:
  the browsers quit are the browsers created). The function of the same name in main.py
  does not: when \<^verbatim>\<open>driver.get\<close> raises, the exception leaves the function before
  \<^verbatim>\<open>driver.quit()\<close>, and the browser it created is never quit. On the same input main2.py
  returns an error record and quits the browser.
\<close>

theorem v1_selenium_leaks_browser:
  "v1_fetch_factsheet_selenium page_load_fails ''ABC'' () =
     (Inl (Exn WebDriverException ''timeout''),
      [ChromeStart, DriverCreated 0, DriverGet 0 (factsheet_url ''ABC'')], ())
   \<and> created (events (v1_fetch_factsheet_selenium page_load_fails ''ABC'' ())) = [0]
   \<and> quitted (events (v1_fetch_factsheet_selenium page_load_fails ''ABC'' ())) = []
   \<and> fetch_factsheet_selenium page_load_fails ''ABC'' () =
     (Inr (VDict [(''symbol'', VStr ''ABC''), (''error'', VStr ''timeout'')]),
      [Sleep 2, ChromeStart, DriverCreated 0, DriverGet 0 (factsheet_url ''ABC''), DriverQuit 0], ())"
proof -
  have v1: "v1_fetch_factsheet_selenium page_load_fails ''ABC'' () =
     (Inl (Exn WebDriverException ''timeout''),
      [ChromeStart, DriverCreated 0, DriverGet 0 (factsheet_url ''ABC'')], ())"
    by (simp add: v1_fetch_factsheet_selenium_def start_chrome_def page_load_fails_def offline_def
        io_bind_def io_call_def io_return_def)
  have v2: "fetch_factsheet_selenium page_load_fails ''ABC'' () =
     (Inr (VDict [(''symbol'', VStr ''ABC''), (''error'', VStr ''timeout'')]),
      [Sleep 2, ChromeStart, DriverCreated 0, DriverGet 0 (factsheet_url ''ABC''), DriverQuit 0], ())"
    by (simp add: fetch_factsheet_selenium_def rate_limit_def page_load_fails_driver
        factsheet_body_def load_page_def quit_quietly_def error_record_def is_Exception_def
        io_try_def io_bind_def io_call_def io_return_def time_sleep_def)
       (simp add: page_load_fails_def offline_def is_Exception_def
        io_try_def io_bind_def io_call_def io_return_def)
  show ?thesis unfolding v1 v2 by simp
qed

section \<open>Properties of the aggregation\<close>

lemma collect_data_shape:
  "\<exists>ts f1 f2 f3 f4 f5 w1 w2 w3 w4 w5.
     result (collect_data env symbol w) = Inr (VDict
       [(''symbol'', VStr symbol), (''timestamp'', VStr ts),
        (''factsheet'', f1), (''company_highlights'', f2), (''rights_benefits'', f3),
        (''financial_statements'', f4), (''historical_trading'', f5)])
     \<and> result (fetch_factsheet_selenium env symbol w1) = Inr f1
     \<and> result (fetch_company_highlights env symbol w2) = Inr f2
     \<and> result (fetch_rights_benefits env symbol w3) = Inr f3
     \<and> result (fetch_financial_statements env symbol w4) = Inr f4
     \<and> result (fetch_historical_prices env symbol 60 w5) = Inr f5"
proof -
  obtain ts w1 where now: "datetime_now env w = (ts, w1)"
    by (cases "datetime_now env w")
  from fetch_factsheet_selenium_total [of env symbol] obtain f1 e1 w2
    where 1: "fetch_factsheet_selenium env symbol w1 = (Inr f1, e1, w2)"
    unfolding never_raises_def by blast
  from fetch_company_highlights_total [of env symbol] obtain f2 e2 w3
    where 2: "fetch_company_highlights env symbol w2 = (Inr f2, e2, w3)"
    unfolding never_raises_def by blast
  from fetch_rights_benefits_total [of env symbol] obtain f3 e3 w4
    where 3: "fetch_rights_benefits env symbol w3 = (Inr f3, e3, w4)"
    unfolding never_raises_def by blast
  from fetch_financial_statements_total [of env symbol] obtain f4 e4 w5
    where 4: "fetch_financial_statements env symbol w4 = (Inr f4, e4, w5)"
    unfolding never_raises_def by blast
  from fetch_historical_prices_total [of env symbol 60] obtain f5 e5 w6
    where 5: "fetch_historical_prices env symbol 60 w5 = (Inr f5, e5, w6)"
    unfolding never_raises_def by blast
  have "result (collect_data env symbol w) = Inr (VDict
       [(''symbol'', VStr symbol), (''timestamp'', VStr ts),
        (''factsheet'', f1), (''company_highlights'', f2), (''rights_benefits'', f3),
        (''financial_statements'', f4), (''historical_trading'', f5)])"
    by (simp add: collect_data_def io_bind_def io_call_def io_return_def now 1 2 3 4 5)
  with 1 2 3 4 5 show ?thesis
    by (metis tuple_simps(1))
qed

lemma save_stock_data_result:
  "result (collect_data env symbol w) = Inr data \<Longrightarrow>
   result (save_stock_data env symbol w) =
     (case result (write_snapshot env symbol data (world (collect_data env symbol w))) of
        Inr u \<Rightarrow> Inr data
      | Inl e \<Rightarrow> Inr (critical_record symbol e))"
  by (simp add: save_stock_data_def result_try result_bind world_bind is_Exception_def
      split: sum.splits)

lemma save_stock_data_total: "never_raises (save_stock_data env symbol)"
  unfolding save_stock_data_def by (rule never_raises_try)

lemmas io_eval = io_try_def io_bind_def io_call_def io_return_def io_pure_def io_raise_def
  time_sleep_def rate_limit_def is_Exception_def


lemma collected_append [simp]: "collected (xs @ ys) = collected xs @ collected ys"
  by (induction xs rule: collected.induct) auto

lemma quiet_return: "quiet (io_return a)"
  and quiet_raise: "quiet (io_raise e)"
  and quiet_pure: "quiet (io_pure r)"
  by (simp_all add: quiet_def)

lemma quiet_call: "collected evs = [] \<Longrightarrow> quiet (io_call evs f)"
  by (simp add: quiet_def)

lemma quiet_sleep: "quiet (time_sleep d)"
  by (simp add: quiet_def events_sleep)

lemma quiet_bind: "quiet m \<Longrightarrow> (\<And>a. quiet (f a)) \<Longrightarrow> quiet (io_bind m f)"
  by (simp add: quiet_def events_bind split: sum.splits)

lemma quiet_try: "quiet m \<Longrightarrow> (\<And>e. quiet (h e)) \<Longrightarrow> quiet (io_try m c h)"
  by (simp add: quiet_def events_try split: sum.splits)

lemma quiet_if: "quiet a \<Longrightarrow> quiet b \<Longrightarrow> quiet (if c then a else b)"
  by simp

lemmas quiet_intros = quiet_return quiet_raise quiet_pure quiet_call quiet_sleep quiet_bind
  quiet_try quiet_if

lemma quiet_http_attempt: "quiet (http_attempt env url ps)"
  unfolding http_attempt_def raise_for_status_def by (intro quiet_intros) simp

lemma quiet_safe_request_loop: "quiet (safe_request_loop env url ps n xs)"
  by (induction xs) (auto intro!: quiet_intros quiet_http_attempt)

lemma quiet_safe_request: "quiet (safe_request env url ps n)"
  by (simp add: safe_request_def quiet_safe_request_loop)

lemma quiet_start_chrome: "quiet (start_chrome env)"
  unfolding start_chrome_def by (intro quiet_intros) simp_all

lemma quiet_get_safe_driver_loop: "quiet (get_safe_driver_loop env n xs)"
  by (induction xs) (auto intro!: quiet_intros quiet_start_chrome)

lemma quiet_get_safe_driver: "quiet (get_safe_driver env n)"
  by (simp add: get_safe_driver_def quiet_get_safe_driver_loop)

lemma quiet_factsheet_body: "quiet (factsheet_body env symbol d)"
  unfolding factsheet_body_def load_page_def page_incomplete_def debug_dump_def
  by (intro quiet_intros) simp_all

lemma quiet_fetch_factsheet_selenium: "quiet (fetch_factsheet_selenium env symbol)"
  unfolding fetch_factsheet_selenium_def rate_limit_def quit_quietly_def
  by (intro quiet_intros quiet_get_safe_driver)
     (auto split: sum.splits option.splits intro!: quiet_intros quiet_factsheet_body)

lemma quiet_case_option:
  "quiet a \<Longrightarrow> (\<And>x. quiet (b x)) \<Longrightarrow> quiet (case v of None \<Rightarrow> a | Some x \<Rightarrow> b x)"
  by (cases v) simp_all

lemma quiet_case_sum:
  "(\<And>x. quiet (a x)) \<Longrightarrow> (\<And>x. quiet (b x)) \<Longrightarrow> quiet (case v of Inl x \<Rightarrow> a x | Inr x \<Rightarrow> b x)"
  by (cases v) simp_all

lemma quiet_fetch_company_highlights: "quiet (fetch_company_highlights env symbol)"
  unfolding fetch_company_highlights_def rate_limit_def
  by (intro quiet_intros quiet_safe_request quiet_case_option)

lemma quiet_fetch_rights_benefits: "quiet (fetch_rights_benefits env symbol)"
  unfolding fetch_rights_benefits_def rate_limit_def response_json_def
  by (intro quiet_intros quiet_safe_request quiet_case_option quiet_case_sum)

lemma quiet_fetch_financial_statements: "quiet (fetch_financial_statements env symbol)"
  unfolding fetch_financial_statements_def rate_limit_def
  by (intro quiet_intros quiet_safe_request quiet_case_option)

lemma quiet_fetch_historical_prices: "quiet (fetch_historical_prices env symbol months)"
  unfolding fetch_historical_prices_def rate_limit_def response_json_def
  by (intro quiet_intros quiet_safe_request quiet_case_option quiet_case_sum) simp

lemma quiet_collect_data: "quiet (collect_data env symbol)"
  unfolding collect_data_def
  by (intro quiet_intros quiet_fetch_factsheet_selenium quiet_fetch_company_highlights
      quiet_fetch_rights_benefits quiet_fetch_financial_statements quiet_fetch_historical_prices)
     simp

lemma quiet_write_snapshot: "quiet (write_snapshot env symbol data)"
  unfolding write_snapshot_def by (intro quiet_intros) simp_all

lemma save_stock_data_collected:
  "collected (events (save_stock_data env symbol w)) = [symbol]"
proof -
  have "quiet (io_bind (collect_data env symbol) (\<lambda>data.
        io_bind (write_snapshot env symbol data) (\<lambda>_. io_return data)))"
    by (intro quiet_intros quiet_collect_data quiet_write_snapshot)
  then show ?thesis
    by (simp add: save_stock_data_def events_try events_bind quiet_def split: sum.splits)
qed

section \<open>Properties of the batch\<close>

lemma io_bind_assoc: "io_bind (io_bind m f) g = io_bind m (\<lambda>a. io_bind (f a) g)"
  by (rule ext) (auto simp: io_bind_def split: prod.splits sum.splits)

lemma batch_round_ok:
  assumes "0 \<le> delay" and r: "result (save_stock_data env symbol w) = Inr r"
  shows "batch_round env delay n i symbol (results, failed) w =
    (Inr (AList.update symbol r results, failed @ (if has_key ''error'' r then [symbol] else [])),
     events (save_stock_data env symbol w) @ (if i < n then [Sleep delay] else []),
     world (save_stock_data env symbol w))"
proof -
  obtain evs w1 where s: "save_stock_data env symbol w = (Inr r, evs, w1)"
    using r by (cases "save_stock_data env symbol w") auto
  from assms(1) show ?thesis
    by (simp add: batch_round_def s io_try_def io_bind_def io_return_def time_sleep_def io_call_def)
qed

lemma batch_round_any:
  "\<exists>results1 failed1.
     result (batch_round env delay n i symbol (results, failed) w) = Inr (results1, failed1)
     \<and> map fst results1 =
         (if symbol \<in> set (map fst results) then map fst results else map fst results @ [symbol])
     \<and> (\<forall>k. k \<noteq> symbol \<longrightarrow> map_of results1 k = map_of results k)"
proof -
  from save_stock_data_total [of env symbol] obtain r evs w1
    where s: "save_stock_data env symbol w = (Inr r, evs, w1)"
    unfolding never_raises_def by blast
  show ?thesis
  proof (cases "i < n \<and> delay < 0")
    case True
    then show ?thesis
      by (simp add: batch_round_def s io_try_def io_bind_def io_return_def time_sleep_def
          io_raise_def is_Exception_def update_keys update_conv')
  next
    case False
    then show ?thesis
      by (auto simp: batch_round_def s io_try_def io_bind_def io_return_def time_sleep_def
          io_call_def update_keys update_conv')
  qed
qed

lemma batch_round_collected:
  "collected (events (batch_round env delay n i symbol st w)) = [symbol]"
proof -
  obtain results failed where st: "st = (results, failed)" by (cases st)
  from save_stock_data_total [of env symbol] obtain r evs w1
    where s: "save_stock_data env symbol w = (Inr r, evs, w1)"
    unfolding never_raises_def by blast
  from save_stock_data_collected [of env symbol w] s have c: "collected evs = [symbol]"
    by simp
  show ?thesis
    by (cases "i < n"; cases "delay < 0")
       (simp_all add: st batch_round_def s c io_try_def io_bind_def io_return_def time_sleep_def
          io_call_def io_raise_def is_Exception_def)
qed


lemma batch_loop_append:
  "batch_loop env delay n i (xs @ ys) st =
     io_bind (batch_loop env delay n i xs st) (\<lambda>st1. batch_loop env delay n (i + length xs) ys st1)"
proof (induction xs arbitrary: i st)
  case Nil
  show ?case by simp
next
  case (Cons x xs)
  have "batch_loop env delay n (Suc i) (xs @ ys) =
      (\<lambda>st1. io_bind (batch_loop env delay n (Suc i) xs st1)
         (\<lambda>st2. batch_loop env delay n (Suc i + length xs) ys st2))"
    by (rule ext) (rule Cons.IH)
  then show ?case by (simp add: io_bind_assoc)
qed

lemma batch_loop_any:
  "\<exists>results1 failed1.
     result (batch_loop env delay n i symbols (results, failed) w) = Inr (results1, failed1)
     \<and> set (map fst results1) = set (map fst results) \<union> set symbols
     \<and> (distinct (map fst results) \<longrightarrow> distinct (map fst results1))
     \<and> (\<forall>k. k \<notin> set symbols \<longrightarrow> map_of results1 k = map_of results k)
     \<and> collected (events (batch_loop env delay n i symbols (results, failed) w)) = symbols"
proof (induction symbols arbitrary: i results failed w)
  case Nil
  show ?case by simp
next
  case (Cons x xs)
  let ?R = "batch_round env delay n i x (results, failed) w"
  from batch_round_any [of env delay n i x results failed w] obtain results1 failed1 where
    r: "result ?R = Inr (results1, failed1)"
    and k: "map fst results1 =
         (if x \<in> set (map fst results) then map fst results else map fst results @ [x])"
    and m: "\<forall>k. k \<noteq> x \<longrightarrow> map_of results1 k = map_of results k"
    by blast
  from Cons.IH [of "Suc i" results1 failed1 "world ?R"] obtain results2 failed2 where
    r2: "result (batch_loop env delay n (Suc i) xs (results1, failed1) (world ?R)) =
          Inr (results2, failed2)"
    and k2: "set (map fst results2) = set (map fst results1) \<union> set xs"
    and d2: "distinct (map fst results1) \<longrightarrow> distinct (map fst results2)"
    and m2: "\<forall>k. k \<notin> set xs \<longrightarrow> map_of results2 k = map_of results1 k"
    and c2: "collected (events (batch_loop env delay n (Suc i) xs (results1, failed1) (world ?R))) = xs"
    by blast
  have res: "result (batch_loop env delay n i (x # xs) (results, failed) w) = Inr (results2, failed2)"
    by (simp add: result_bind r r2)
  have ev: "collected (events (batch_loop env delay n i (x # xs) (results, failed) w)) = x # xs"
    by (simp add: events_bind r c2 batch_round_collected)
  have ks: "set (map fst results2) = set (map fst results) \<union> set (x # xs)"
    using k k2 by (auto split: if_splits)
  have ds: "distinct (map fst results) \<longrightarrow> distinct (map fst results2)"
    using k d2 by (auto split: if_splits)
  have ms: "\<forall>k. k \<notin> set (x # xs) \<longrightarrow> map_of results2 k = map_of results k"
    using m m2 by simp
  from res ev ks ds ms show ?case by blast
qed

lemma batch_loop_ok:
  assumes "0 \<le> delay"
  shows "\<exists>results1 fs.
     result (batch_loop env delay n i symbols (results, failed) w) = Inr (results1, failed @ fs)
     \<and> subseq fs symbols
     \<and> (distinct symbols \<and> set symbols \<inter> set (map fst results) = {} \<longrightarrow>
          map fst results1 = map fst results @ symbols
          \<and> (\<forall>k \<in> set (map fst results). map_of results1 k = map_of results k)
          \<and> fs = filter (\<lambda>s. has_key ''error'' (the (map_of results1 s))) symbols)"
proof (induction symbols arbitrary: i results failed w)
  case Nil
  show ?case by simp
next
  case (Cons x xs)
  from save_stock_data_total [of env x] obtain r where
    s: "result (save_stock_data env x w) = Inr r"
    unfolding never_raises_def by (metis tuple_simps(1))
  let ?results1 = "AList.update x r results"
  let ?f1 = "if has_key ''error'' r then [x] else []"
  let ?w1 = "world (save_stock_data env x w)"
  note round = batch_round_ok [OF assms s, of n i results failed]
  from Cons.IH [of "Suc i" ?results1 "failed @ ?f1" ?w1] obtain results2 fs where
    r2: "result (batch_loop env delay n (Suc i) xs (?results1, failed @ ?f1) ?w1) =
          Inr (results2, (failed @ ?f1) @ fs)"
    and sub: "subseq fs xs"
    and dist: "distinct xs \<and> set xs \<inter> set (map fst ?results1) = {} \<longrightarrow>
          map fst results2 = map fst ?results1 @ xs
          \<and> (\<forall>k \<in> set (map fst ?results1). map_of results2 k = map_of ?results1 k)
          \<and> fs = filter (\<lambda>s. has_key ''error'' (the (map_of results2 s))) xs"
    by blast
  have res: "result (batch_loop env delay n i (x # xs) (results, failed) w) =
      Inr (results2, failed @ (?f1 @ fs))"
    by (simp add: result_bind round r2)
  have sub': "subseq (?f1 @ fs) (x # xs)"
    using sub by auto
  have dist': "map fst results2 = map fst results @ (x # xs)
          \<and> (\<forall>k \<in> set (map fst results). map_of results2 k = map_of results k)
          \<and> ?f1 @ fs = filter (\<lambda>s. has_key ''error'' (the (map_of results2 s))) (x # xs)"
    if d: "distinct (x # xs)" and disj: "set (x # xs) \<inter> set (map fst results) = {}"
  proof -
    from disj have xn: "x \<notin> set (map fst results)" by auto
    then have keys1: "map fst ?results1 = map fst results @ [x]"
      by (simp add: update_keys)
    with d disj have pre: "distinct xs \<and> set xs \<inter> set (map fst ?results1) = {}"
      by auto
    from dist pre have a: "map fst results2 = map fst ?results1 @ xs"
      and b: "\<forall>k \<in> set (map fst ?results1). map_of results2 k = map_of ?results1 k"
      and c: "fs = filter (\<lambda>s. has_key ''error'' (the (map_of results2 s))) xs"
      by blast+
    from b keys1 have mx: "map_of results2 x = Some r"
      by (simp add: update_conv')
    have old: "\<forall>k \<in> set (map fst results). map_of results2 k = map_of results k"
    proof
      fix k assume kk: "k \<in> set (map fst results)"
      with xn have "k \<noteq> x" by auto
      moreover from kk keys1 have "k \<in> set (map fst ?results1)" by simp
      moreover from this b have "map_of results2 k = map_of ?results1 k" by blast
      ultimately show "map_of results2 k = map_of results k"
        by (simp add: update_conv')
    qed
    from a keys1 old mx c show ?thesis by simp
  qed
  from res sub' dist' show ?case by blast
qed

subsection \<open>A day without network and without browser\<close>

lemmas quiet_env = quiet_day_def offline_def

lemma quiet_day_safe_request:
  "safe_request (quiet_day now opn) url ps 3 w =
     (Inr (Some \<lparr>status_code = 200, resp_text = []\<rparr>), [HttpGet url], w)"
  by (simp add: safe_request_def upt_rec http_attempt_def raise_for_status_def quiet_env io_eval)

lemma quiet_day_driver:
  "get_safe_driver (quiet_day now opn) 3 w =
     (Inr None, [ChromeStart, Sleep 2, ChromeStart, Sleep 2, ChromeStart], w)"
  by (simp add: get_safe_driver_def upt_rec start_chrome_def quiet_env io_eval)

lemma quiet_day_factsheet:
  "fetch_factsheet_selenium (quiet_day now opn) symbol w =
     (Inr (VDict [(''symbol'', VStr symbol), (''error'', VStr ''Failed to create driver'')]),
      [Sleep 2, ChromeStart, Sleep 2, ChromeStart, Sleep 2, ChromeStart], w)"
  by (simp add: fetch_factsheet_selenium_def quiet_day_driver error_record_def io_eval)

lemma quiet_day_highlights:
  "fetch_company_highlights (quiet_day now opn) symbol w =
     (Inr (VDict [(''symbol'', VStr symbol), (''highlights'', VDict [(''financials'', VList [])])]),
      [Sleep 1, HttpGet (highlights_url symbol)], w)"
  by (simp add: fetch_company_highlights_def quiet_day_safe_request io_eval)
     (simp add: quiet_env io_eval)

lemma quiet_day_rights:
  "fetch_rights_benefits (quiet_day now opn) symbol w =
     (Inr (VDict [(''symbol'', VStr symbol), (''dividends'', VList [])]),
      [Sleep 1, HttpGet (rights_url symbol)], w)"
  by (simp add: fetch_rights_benefits_def quiet_day_safe_request response_json_def io_eval)
     (simp add: quiet_env io_eval)

lemma quiet_day_statements:
  "fetch_financial_statements (quiet_day now opn) symbol w =
     (Inr (VDict [(''symbol'', VStr symbol), (''financial_statements'', VList [])]),
      [Sleep 1, HttpGet (statements_url symbol)], w)"
  by (simp add: fetch_financial_statements_def quiet_day_safe_request io_eval)
     (simp add: quiet_env io_eval statement_links_def)

lemma quiet_day_prices:
  "fetch_historical_prices (quiet_day now opn) symbol 60 w =
     (Inr (VDict [(''symbol'', VStr symbol), (''historical_prices'', VList [])]),
      [Sleep 1, HttpGet price_chart_url], w)"
  by (simp add: fetch_historical_prices_def quiet_day_safe_request response_json_def io_eval
      split: prod.splits)
     (simp add: quiet_env io_eval)

lemma quiet_day_collect:
  "result (collect_data (quiet_day now opn) symbol w) =
     Inr (quiet_day_record symbol (fst (now w)))"
  "world (collect_data (quiet_day now opn) symbol w) = snd (now w)"
  by (simp_all add: collect_data_def quiet_day_factsheet quiet_day_highlights quiet_day_rights
      quiet_day_statements quiet_day_prices quiet_day_record_def result_bind world_bind
      split: prod.splits)
     (auto simp: quiet_env)

lemma quiet_day_write:
  "result (write_snapshot (quiet_day now opn) symbol data w) =
     (case fst (opn (''data/'' @ symbol @ ''.json'') w) of Inl e \<Rightarrow> Inl e | Inr u \<Rightarrow> Inr ())"
  "world (write_snapshot (quiet_day now opn) symbol data w) =
     snd (opn (''data/'' @ symbol @ ''.json'') w)"
  by (simp_all add: write_snapshot_def result_bind world_bind split: sum.splits)
     (simp_all add: quiet_env)

lemma quiet_day_save:
  "result (save_stock_data (quiet_day now opn) symbol w) =
     (case fst (opn (''data/'' @ symbol @ ''.json'') (snd (now w))) of
        Inl e \<Rightarrow> Inr (critical_record symbol e)
      | Inr u \<Rightarrow> Inr (quiet_day_record symbol (fst (now w))))"
  "world (save_stock_data (quiet_day now opn) symbol w) =
     snd (opn (''data/'' @ symbol @ ''.json'') (snd (now w)))"
  by (simp_all add: save_stock_data_def result_try result_bind world_try world_bind
      quiet_day_collect quiet_day_write is_Exception_def split: sum.splits)

lemma quiet_day_round:
  assumes "0 \<le> delay"
  shows "result (batch_round (quiet_day now opn) delay n i symbol (results, failed) w) =
     (case fst (opn (''data/'' @ symbol @ ''.json'') (snd (now w))) of
        Inl e \<Rightarrow> Inr (AList.update symbol (critical_record symbol e) results, failed @ [symbol])
      | Inr u \<Rightarrow> Inr (AList.update symbol (quiet_day_record symbol (fst (now w))) results, failed))"
    and "world (batch_round (quiet_day now opn) delay n i symbol (results, failed) w) =
     snd (opn (''data/'' @ symbol @ ''.json'') (snd (now w)))"
proof -
  obtain r where r: "result (save_stock_data (quiet_day now opn) symbol w) = Inr r"
    using quiet_day_save(1) [of now opn symbol w] by (auto split: sum.splits)
  note round = batch_round_ok [OF assms r, of n i results failed]
  from r show "result (batch_round (quiet_day now opn) delay n i symbol (results, failed) w) =
     (case fst (opn (''data/'' @ symbol @ ''.json'') (snd (now w))) of
        Inl e \<Rightarrow> Inr (AList.update symbol (critical_record symbol e) results, failed @ [symbol])
      | Inr u \<Rightarrow> Inr (AList.update symbol (quiet_day_record symbol (fst (now w))) results, failed))"
    unfolding round quiet_day_save
    by (auto simp: critical_record_def quiet_day_record_def split: sum.splits)
  show "world (batch_round (quiet_day now opn) delay n i symbol (results, failed) w) =
     snd (opn (''data/'' @ symbol @ ''.json'') (snd (now w)))"
    unfolding round by (simp add: quiet_day_save)
qed

text \<open>
  C2 (as stated): the aggregated record has an overall status that is \<open>ok\<close> only if no
  per-source record carries an error marker and \<open>partial\<close> otherwise. It fails: the record
  has no status field, and the only marker looked at (by \<^verbatim>\<open>batch_scrape\<close>) is a top-level
  \<^verbatim>\<open>"error"\<close> key, which a failed source never sets. On a day when the browser cannot be
  started the factsheet slot carries \<^verbatim>\<open>"error"\<close>, the other four slots are filled, the record
  has no top-level \<^verbatim>\<open>"error"\<close> and the batch counts the symbol as scraped successfully.
\<close>

theorem status_ignores_source_errors_counterexample:
  "result (save_stock_data (disk_refuses ''data/S2.json'') ''S1'' ()) =
     Inr (quiet_day_record ''S1'' ''2024-01-01T00:00:00'')
   \<and> item ''factsheet'' (quiet_day_record ''S1'' ''2024-01-01T00:00:00'') =
       Some (VDict [(''symbol'', VStr ''S1''), (''error'', VStr ''Failed to create driver'')])
   \<and> \<not> has_key ''error'' (quiet_day_record ''S1'' ''2024-01-01T00:00:00'')
   \<and> result (batch_scrape (disk_refuses ''data/S2.json'') [''S1''] 3 ()) =
       Inr ([(''S1'', quiet_day_record ''S1'' ''2024-01-01T00:00:00'')], [])"
proof -
  have a: "result (save_stock_data (disk_refuses ''data/S2.json'') ''S1'' ()) =
     Inr (quiet_day_record ''S1'' ''2024-01-01T00:00:00'')"
    by (simp add: disk_refuses_def quiet_day_save)
  have b: "item ''factsheet'' (quiet_day_record ''S1'' ''2024-01-01T00:00:00'') =
       Some (VDict [(''symbol'', VStr ''S1''), (''error'', VStr ''Failed to create driver'')])"
    by (simp add: quiet_day_record_def)
  have c: "\<not> has_key ''error'' (quiet_day_record ''S1'' ''2024-01-01T00:00:00'')"
    by (simp add: quiet_day_record_def)
  have d: "result (batch_scrape (disk_refuses ''data/S2.json'') [''S1''] 3 ()) =
       Inr ([(''S1'', quiet_day_record ''S1'' ''2024-01-01T00:00:00'')], [])"
    by (simp add: batch_scrape_def disk_refuses_def result_bind quiet_day_round)
  from a b c d show ?thesis by blast
qed

text \<open>
  C2 (amended): \<^verbatim>\<open>save_stock_data\<close> never raises. When the snapshot can be written its
  result is the record with the keys \<^verbatim>\<open>symbol\<close>, \<^verbatim>\<open>timestamp\<close> and one slot per source
  (\<^verbatim>\<open>factsheet\<close>, \<^verbatim>\<open>company_highlights\<close>, \<^verbatim>\<open>rights_benefits\<close>, \<^verbatim>\<open>financial_statements\<close>,
  \<^verbatim>\<open>historical_trading\<close>), each slot holding what the extractor of that source returned,
  error-tagged or not; this record has no top-level \<^verbatim>\<open>"error"\<close> key and no status field,
  whatever the slots hold. When writing the snapshot raises, the result is instead the record
  \<^verbatim>\<open>{"symbol", "error": "Critical error: ..."}\<close>, without the slots.
\<close>

theorem aggregated_record_slots:
  "\<exists>ts f1 f2 f3 f4 f5 w1 w2 w3 w4 w5.
     result (fetch_factsheet_selenium env symbol w1) = Inr f1
     \<and> result (fetch_company_highlights env symbol w2) = Inr f2
     \<and> result (fetch_rights_benefits env symbol w3) = Inr f3
     \<and> result (fetch_financial_statements env symbol w4) = Inr f4
     \<and> result (fetch_historical_prices env symbol 60 w5) = Inr f5
     \<and> result (save_stock_data env symbol w) =
        (case result (write_snapshot env symbol
                (VDict [(''symbol'', VStr symbol), (''timestamp'', VStr ts),
                   (''factsheet'', f1), (''company_highlights'', f2), (''rights_benefits'', f3),
                   (''financial_statements'', f4), (''historical_trading'', f5)])
                (world (collect_data env symbol w))) of
           Inr u \<Rightarrow> Inr (VDict [(''symbol'', VStr symbol), (''timestamp'', VStr ts),
                   (''factsheet'', f1), (''company_highlights'', f2), (''rights_benefits'', f3),
                   (''financial_statements'', f4), (''historical_trading'', f5)])
         | Inl e \<Rightarrow> Inr (VDict [(''symbol'', VStr symbol),
                   (''error'', VStr (''Critical error: '' @ str_exn e))]))
     \<and> \<not> has_key ''error'' (VDict [(''symbol'', VStr symbol), (''timestamp'', VStr ts),
                   (''factsheet'', f1), (''company_highlights'', f2), (''rights_benefits'', f3),
                   (''financial_statements'', f4), (''historical_trading'', f5)])"
proof -
  from collect_data_shape [of env symbol w] obtain ts f1 f2 f3 f4 f5 w1 w2 w3 w4 w5 where
    c: "result (collect_data env symbol w) = Inr (VDict
       [(''symbol'', VStr symbol), (''timestamp'', VStr ts),
        (''factsheet'', f1), (''company_highlights'', f2), (''rights_benefits'', f3),
        (''financial_statements'', f4), (''historical_trading'', f5)])"
    and f: "result (fetch_factsheet_selenium env symbol w1) = Inr f1"
      "result (fetch_company_highlights env symbol w2) = Inr f2"
      "result (fetch_rights_benefits env symbol w3) = Inr f3"
      "result (fetch_financial_statements env symbol w4) = Inr f4"
      "result (fetch_historical_prices env symbol 60 w5) = Inr f5"
    by blast
  have k: "\<not> has_key ''error'' (VDict [(''symbol'', VStr symbol), (''timestamp'', VStr ts),
                   (''factsheet'', f1), (''company_highlights'', f2), (''rights_benefits'', f3),
                   (''financial_statements'', f4), (''historical_trading'', f5)])"
    by simp
  note s = save_stock_data_result [OF c, unfolded critical_record_def]
  show ?thesis
    apply (rule exI [of _ ts], rule exI [of _ f1], rule exI [of _ f2], rule exI [of _ f3])
    apply (rule exI [of _ f4], rule exI [of _ f5], rule exI [of _ w1], rule exI [of _ w2])
    apply (rule exI [of _ w3], rule exI [of _ w4], rule exI [of _ w5])
    apply (intro conjI)
          apply (fact f s k)+
    done
qed



lemma batch_loop_records:
  assumes "0 \<le> delay"
  shows "\<exists>results1 rs.
     result (batch_loop env delay n i symbols (results, failed) w) =
       Inr (results1, failed @ map fst (filter (\<lambda>(s, r). has_key ''error'' r) (zip symbols rs)))
     \<and> length rs = length symbols
     \<and> (\<forall>j<length symbols.
          result (save_stock_data env (symbols ! j)
            (world (batch_loop env delay n i (take j symbols) (results, failed) w))) = Inr (rs ! j))
     \<and> map_of results1 = map_of (rev (zip symbols rs) @ results)"
proof (induction symbols arbitrary: i results failed w)
  case Nil
  show ?case by simp
next
  case (Cons x xs)
  from save_stock_data_total [of env x] obtain r where
    s: "result (save_stock_data env x w) = Inr r"
    unfolding never_raises_def by (metis tuple_simps(1))
  let ?results = "AList.update x r results"
  let ?failed = "failed @ (if has_key ''error'' r then [x] else [])"
  let ?w = "world (save_stock_data env x w)"
  note round = batch_round_ok [OF assms s, of n i results failed]
  have step: "result (batch_loop env delay n i (x # ys) (results, failed) w) =
      result (batch_loop env delay n (Suc i) ys (?results, ?failed) ?w)"
    and wstep: "world (batch_loop env delay n i (x # ys) (results, failed) w) =
      world (batch_loop env delay n (Suc i) ys (?results, ?failed) ?w)" for ys
    by (simp_all add: result_bind world_bind round)
  from Cons.IH [of "Suc i" ?results ?failed ?w] obtain results1 rs where
    r1: "result (batch_loop env delay n (Suc i) xs (?results, ?failed) ?w) =
       Inr (results1, ?failed @ map fst (filter (\<lambda>(s, r). has_key ''error'' r) (zip xs rs)))"
    and len: "length rs = length xs"
    and each: "\<forall>j<length xs.
          result (save_stock_data env (xs ! j)
            (world (batch_loop env delay n (Suc i) (take j xs) (?results, ?failed) ?w))) = Inr (rs ! j)"
    and m: "map_of results1 = map_of (rev (zip xs rs) @ ?results)"
    by blast
  have a: "result (batch_loop env delay n i (x # xs) (results, failed) w) =
       Inr (results1, failed @ map fst (filter (\<lambda>(s, r). has_key ''error'' r) (zip (x # xs) (r # rs))))"
    unfolding step r1 by simp
  have b: "length (r # rs) = length (x # xs)"
    using len by simp
  have c: "\<forall>j<length (x # xs).
          result (save_stock_data env ((x # xs) ! j)
            (world (batch_loop env delay n i (take j (x # xs)) (results, failed) w))) = Inr ((r # rs) ! j)"
  proof (intro allI impI)
    fix j
    assume j: "j < length (x # xs)"
    show "result (save_stock_data env ((x # xs) ! j)
            (world (batch_loop env delay n i (take j (x # xs)) (results, failed) w))) = Inr ((r # rs) ! j)"
    proof (cases j)
      case 0
      then show ?thesis using s by simp
    next
      case (Suc k)
      with j have "k < length xs" by simp
      with each have "result (save_stock_data env (xs ! k)
            (world (batch_loop env delay n (Suc i) (take k xs) (?results, ?failed) ?w))) = Inr (rs ! k)"
        by blast
      then show ?thesis
        unfolding Suc take_Suc_Cons wstep by simp
    qed
  qed
  have d: "map_of results1 = map_of (rev (zip (x # xs) (r # rs)) @ results)"
    unfolding m by (simp add: update_conv' map_add_def fun_eq_iff split: option.splits)
  from a b c d show ?case by blast
qed

text \<open>
  C10: let \<open>rs ! j\<close> be the record that \<^verbatim>\<open>save_stock_data\<close> returns for the \<open>j\<close>-th occurrence in
  the input list. For a delay that \<^verbatim>\<open>time.sleep\<close> accepts, the returned mapping has one entry
  per key, it maps each symbol to the record of its last occurrence, the list of failed
  symbols has the symbol of every occurrence whose record carries a top-level \<^verbatim>\<open>"error"\<close>,
  once per such occurrence and in input order, and for pairwise distinct symbols the keys of
  the mapping are exactly the input symbols.
\<close>

theorem batch_mapping_last_wins:
  assumes "0 \<le> delay"
  shows "\<exists>results failed rs.
     result (batch_scrape env symbols delay w) = Inr (results, failed)
     \<and> length rs = length symbols
     \<and> (\<forall>j<length symbols.
          result (save_stock_data env (symbols ! j)
            (world (batch_loop env delay (length symbols) 1 (take j symbols) ([], []) w))) =
          Inr (rs ! j))
     \<and> distinct (map fst results)
     \<and> map_of results = map_of (rev (zip symbols rs))
     \<and> failed = map fst (filter (\<lambda>(s, r). has_key ''error'' r) (zip symbols rs))
     \<and> (distinct symbols \<longrightarrow> map fst results = symbols)"
proof -
  let ?B = "batch_loop env delay (length symbols) 1 symbols ([], []) w"
  from batch_loop_records [OF assms, of env "length symbols" 1 symbols "[]" "[]" w]
  obtain results rs where
    r: "result ?B =
       Inr (results, map fst (filter (\<lambda>(s, r). has_key ''error'' r) (zip symbols rs)))"
    and len: "length rs = length symbols"
    and each: "\<forall>j<length symbols.
          result (save_stock_data env (symbols ! j)
            (world (batch_loop env delay (length symbols) 1 (take j symbols) ([], []) w))) =
          Inr (rs ! j)"
    and m: "map_of results = map_of (rev (zip symbols rs))"
    by auto
  have d: "distinct (map fst results)"
    using batch_loop_any [of env delay "length symbols" 1 symbols "[]" "[]" w] r by auto
  have o: "map fst results = symbols" if "distinct symbols"
    using batch_loop_ok [OF assms, of env "length symbols" 1 symbols "[]" "[]" w] r that by auto
  from r len each m d o show ?thesis
    unfolding batch_scrape_def by blast
qed

theorem batch_mapping_last_wins_witness:
  "(0::int) \<le> 3
   \<and> (\<exists>results failed rs.
        result (batch_scrape ticking [''A'', ''A''] 3 0) = Inr (results, failed)
        \<and> rs = [critical_record ''A'' (Exn OSError ''denied''), quiet_day_record ''A'' ''I'']
        \<and> results = [(''A'', quiet_day_record ''A'' ''I'')]
        \<and> map_of results = map_of (rev (zip [''A'', ''A''] rs))
        \<and> failed = map fst (filter (\<lambda>(s, r). has_key ''error'' r) (zip [''A'', ''A''] rs))
        \<and> failed = [''A''])"
proof -
  let ?S = "[''A'', ''A'']"
  have e: "result (batch_scrape ticking ?S 3 0) =
      Inr ([(''A'', quiet_day_record ''A'' ''I'')], [''A''])"
    by (simp add: batch_scrape_def ticking_def result_bind world_bind quiet_day_round)
  have s0: "result (save_stock_data ticking ''A'' 0) =
      Inr (critical_record ''A'' (Exn OSError ''denied''))"
    by (simp add: ticking_def quiet_day_save)
  have s1: "result (save_stock_data ticking ''A''
       (world (batch_loop ticking 3 2 1 [''A''] ([], []) 0))) =
      Inr (quiet_day_record ''A'' ''I'')"
    by (simp add: ticking_def world_bind quiet_day_round quiet_day_save)
  have z: "(0::int) \<le> 3" by simp
  from batch_mapping_last_wins [OF z, of ticking ?S 0] obtain results failed rs where
    r: "result (batch_scrape ticking ?S 3 0) = Inr (results, failed)"
    and len: "length rs = length ?S"
    and each: "\<forall>j<length ?S. result (save_stock_data ticking (?S ! j)
            (world (batch_loop ticking 3 (length ?S) 1 (take j ?S) ([], []) 0))) = Inr (rs ! j)"
    and m: "map_of results = map_of (rev (zip ?S rs))"
    and f: "failed = map fst (filter (\<lambda>(s, r). has_key ''error'' r) (zip ?S rs))"
    by blast
  have "(0::nat) < length ?S" by simp
  from each [rule_format, OF this]
  have "result (save_stock_data ticking ''A'' 0) = Inr (rs ! 0)"
    by simp
  then have "Inr (rs ! 0) = (Inr (critical_record ''A'' (Exn OSError ''denied'')) :: exn + pyval)"
    unfolding s0 by (rule sym)
  then have r0: "rs ! 0 = critical_record ''A'' (Exn OSError ''denied'')"
    by (simp only: sum.inject)
  have "(1::nat) < length ?S" by simp
  from each [rule_format, OF this]
  have "result (save_stock_data ticking ''A''
       (world (batch_loop ticking 3 2 1 [''A''] ([], []) 0))) = Inr (rs ! 1)"
    by (simp add: numeral_2_eq_2)
  then have "Inr (rs ! 1) = (Inr (quiet_day_record ''A'' ''I'') :: exn + pyval)"
    unfolding s1 by (rule sym)
  then have r1: "rs ! 1 = quiet_day_record ''A'' ''I''"
    by (simp only: sum.inject)
  from len have "rs = [rs ! 0, rs ! 1]"
    by (auto simp: length_Suc_conv)
  then have rs: "rs = [critical_record ''A'' (Exn OSError ''denied''), quiet_day_record ''A'' ''I'']"
    unfolding r0 r1 .
  from r have "Inr (results, failed) =
      (Inr ([(''A'', quiet_day_record ''A'' ''I'')], [''A'']) :: exn + batch_state)"
    unfolding e by (rule sym)
  then have res: "results = [(''A'', quiet_day_record ''A'' ''I'')]" and fl: "failed = [''A'']"
    by (simp_all only: sum.inject prod.inject)
  from r rs res m f fl have all:
    "result (batch_scrape ticking [''A'', ''A''] 3 0) = Inr (results, failed)
        \<and> rs = [critical_record ''A'' (Exn OSError ''denied''), quiet_day_record ''A'' ''I'']
        \<and> results = [(''A'', quiet_day_record ''A'' ''I'')]
        \<and> map_of results = map_of (rev (zip [''A'', ''A''] rs))
        \<and> failed = map fst (filter (\<lambda>(s, r). has_key ''error'' r) (zip [''A'', ''A''] rs))
        \<and> failed = [''A'']"
    by (intro conjI)
  show ?thesis
    apply (rule conjI [OF z])
    apply (rule exI [of _ results], rule exI [of _ failed], rule exI [of _ rs])
    apply (rule all)
    done
qed

end
